theory Spec2Isabelle
  imports Main "HOL-Library.Sublist"
begin

section \<open>The page state of \<open>static/js/main.js\<close>\<close>

text \<open>
  The script is a set of event handlers over module-level variables and three browser
  services: the speech recogniser, the speech synthesiser and the timer queue, plus
  \<open>fetch\<close>. A handler is a function from the page state to the page state; what the
  browser delivers (recogniser events, utterance events, expired timers, settled
  requests, user input) is an \<open>event\<close>.

  Conventions of the embedding:
  \<^item> JavaScript strings are \<open>string\<close>; a value that may be \<open>undefined\<close> or
    \<open>null\<close> is an \<open>option\<close>. Characters are the 8-bit characters of HOL, so of the
    white space that \<open>trim\<close> removes only the code points below 256 appear.
  \<^item> Every element looked up by id at lines 2-19 is taken to exist, so a guard such
    as \<open>if (micBtn)\<close> is true and an unguarded access such as
    \<open>voiceIndicator.classList\<close> does not raise.
  \<^item> The constant prosody of an utterance (rate, pitch, volume, language) is left out;
    it never influences control.
  \<^item> Time is a counter of milliseconds; a timer is an entry of the timer queue with the
    instant it is due.
\<close>

datatype exn = InvalidStateError

datatype engine = Idle | Starting | Running | Stopping

record voice =
  vname :: string
  vlang :: string

datatype done_cb = ReadyAfterGreeting
  \<comment> \<open>the closures passed to \<open>speak\<close>: only line 322 passes one\<close>

record utterance =
  utext :: string
  uvoice :: "voice option"
  ondone :: "done_cb option"

datatype callback =
    SilenceExpired              \<comment> \<open>lines 95-98\<close>
  | ErrorRestart                \<comment> \<open>lines 113-117\<close>
  | EndRestart                  \<comment> \<open>lines 127-131\<close>
  | SpeakDone "done_cb option"  \<comment> \<open>lines 190-193 and 198-201\<close>
  | ResumeAfterSilence          \<comment> \<open>line 250\<close>
  | ResumeAfterFailure          \<comment> \<open>line 356\<close>
  | VoicePoll nat               \<comment> \<open>line 304, with the value \<open>attempts\<close> has on resumption\<close>
  | Countdown                   \<comment> \<open>lines 256-263, the only interval\<close>

type_synonym timer = "nat \<times> nat \<times> callback"
  \<comment> \<open>identifier, due instant, callback\<close>

datatype request =
    StartReq                          \<comment> \<open>POST /start_conversation\<close>
  | SendReq "string option" string    \<comment> \<open>POST /send_message\<close>
  | EndReq "string option"            \<comment> \<open>POST /end_conversation\<close>

record json =
  conversation_id :: "string option"
  greeting :: "string option"
  response :: "string option"
  turn_count :: "nat option"
  redirect :: "string option"

datatype fetch_result =
    Rejected                        \<comment> \<open>the request promise rejects\<close>
  | Responded bool "json option"    \<comment> \<open>\<open>res.ok\<close>, and the body if it parses as JSON\<close>

datatype mic_label = MicInitial | MicListening | MicSpeaking

datatype screen = Welcome | Conversation | Feedback

datatype nav = Stay | Navigate "string option"

record state =
  \<comment> \<open>module variables, lines 22-33\<close>
  conversationId :: "string option"
  recognition :: bool
  isListening :: bool
  timerInterval :: "nat option"
  timeRemaining :: int
  selectedVoice :: "voice option"
  voicesReady :: bool
  silenceTimer :: "nat option"
  finalTranscript :: string
  interimTranscript :: string
  \<comment> \<open>the page\<close>
  voiceIndicator :: bool
  micLabel :: mic_label
  micRecording :: bool
  micHidden :: bool
  loadingText :: string
  loadingActive :: bool
  activeScreen :: screen
  chat :: "(string option \<times> bool) list"
  textInput :: string
  timerDisplay :: "(int \<times> int) option"
  turnCount :: "nat option"
  alerts :: "string list"
  console :: "string list"
  location :: nav
  \<comment> \<open>the browser\<close>
  domReady :: bool
  srSupported :: bool
  voices :: "voice list"
  now :: nat
  nextTimer :: nat
  timers :: "timer list"
  engine :: engine
  queue :: "utterance list"
  cancelled :: "utterance list"
  paused :: bool
  requests :: "request list"
  pending :: "nat list"

datatype outcome = Returns state | Throws exn state

fun state_of :: "outcome \<Rightarrow> state" where
  "state_of (Returns s) = s"
| "state_of (Throws e s) = s"

definition and_then :: "outcome \<Rightarrow> (state \<Rightarrow> outcome) \<Rightarrow> outcome" where
  "and_then r f = (case r of Returns s \<Rightarrow> f s | Throws e s \<Rightarrow> Throws e s)"

definition try_catch :: "outcome \<Rightarrow> (exn \<Rightarrow> state \<Rightarrow> outcome) \<Rightarrow> outcome" where
  "try_catch r h = (case r of Returns s \<Rightarrow> Returns s | Throws e s \<Rightarrow> h e s)"

definition async :: "outcome \<Rightarrow> outcome" where
  \<comment> \<open>an \<open>async\<close> function hands its caller a promise: what it throws rejects the
      promise and does not reach the caller\<close>
  "async r = Returns (state_of r)"

subsection \<open>Browser services\<close>

definition log :: "string \<Rightarrow> state \<Rightarrow> state" where
  "log m s = s\<lparr>console := console s @ [m]\<rparr>"

definition alert :: "string \<Rightarrow> state \<Rightarrow> state" where
  "alert m s = s\<lparr>alerts := alerts s @ [m]\<rparr>"

definition setTimeout :: "callback \<Rightarrow> nat \<Rightarrow> state \<Rightarrow> state" where
  \<comment> \<open>the identifier handed out is \<open>nextTimer s\<close>\<close>
  "setTimeout cb delay s =
     s\<lparr>timers := timers s @ [(nextTimer s, now s + delay, cb)],
       nextTimer := Suc (nextTimer s)\<rparr>"

definition without_timer :: "nat option \<Rightarrow> timer list \<Rightarrow> timer list" where
  \<comment> \<open>clearing \<open>null\<close>, or an identifier that is not pending, changes nothing\<close>
  "without_timer h ts = (case h of None \<Rightarrow> ts | Some i \<Rightarrow> filter (\<lambda>t. fst t \<noteq> i) ts)"

definition clearTimeout :: "nat option \<Rightarrow> state \<Rightarrow> state" where
  \<comment> \<open>also \<open>clearInterval\<close>: both act on the one pool of timer identifiers\<close>
  "clearTimeout h s = s\<lparr>timers := without_timer h (timers s)\<rparr>"

definition recognition_start :: "state \<Rightarrow> outcome" where
  \<comment> \<open>\<open>recognition.start()\<close> raises when the recogniser has already been started\<close>
  "recognition_start s =
     (if engine s = Idle then Returns (s\<lparr>engine := Starting\<rparr>)
      else Throws InvalidStateError s)"

definition recognition_stop :: "state \<Rightarrow> outcome" where
  "recognition_stop s =
     Returns (s\<lparr>engine := (if engine s = Idle then Idle else Stopping)\<rparr>)"

definition synth_cancel :: "state \<Rightarrow> state" where
  \<comment> \<open>the removed utterances are kept aside: a browser may still deliver an error event
      to each of them\<close>
  "synth_cancel s = s\<lparr>queue := [], cancelled := cancelled s @ queue s\<rparr>"

definition synth_speak :: "utterance \<Rightarrow> state \<Rightarrow> state" where
  "synth_speak u s = s\<lparr>queue := queue s @ [u]\<rparr>"

definition synth_speaking :: "state \<Rightarrow> bool" where
  "synth_speaking s = (queue s \<noteq> [])"

definition fetch :: "request \<Rightarrow> state \<Rightarrow> state" where
  \<comment> \<open>a request is named by its position in \<open>requests\<close>\<close>
  "fetch r s =
     s\<lparr>requests := requests s @ [r], pending := pending s @ [length (requests s)]\<rparr>"

subsection \<open>Strings\<close>

definition is_space :: "char \<Rightarrow> bool" where
  "is_space c = (of_char c \<in> {9, 10, 11, 12, 13, 32, 160 :: nat})"

definition trim :: "string \<Rightarrow> string" where
  "trim s = rev (dropWhile is_space (rev (dropWhile is_space s)))"

definition toLowerCase :: "string \<Rightarrow> string" where
  "toLowerCase s =
     map (\<lambda>c. let n = of_char c :: nat
              in if 65 \<le> n \<and> n \<le> 90 then char_of (n + 32) else c) s"

definition str_includes :: "string \<Rightarrow> string \<Rightarrow> bool" where
  "str_includes s pat = sublist pat s"

definition falsy :: "string option \<Rightarrow> bool" where
  "falsy t = (t = None \<or> t = Some [])"

subsection \<open>Listening control, lines 208-252\<close>

definition startListening :: "state \<Rightarrow> outcome" where
  "startListening s =
     (if \<not> recognition s \<or> isListening s then Returns s
      else try_catch
             (recognition_start (s\<lparr>finalTranscript := [], interimTranscript := []\<rparr>))
             (\<lambda>e s. Returns (log ''Error starting recognition:'' s)))"

definition stopListening :: "state \<Rightarrow> outcome" where
  "stopListening s =
     (if \<not> recognition s then Returns s
      else and_then
             (try_catch
                (recognition_stop (clearTimeout (silenceTimer s) (s\<lparr>isListening := False\<rparr>)))
                (\<lambda>e s. Returns (log ''Error stopping recognition:'' s)))
             (\<lambda>s. Returns (s\<lparr>voiceIndicator := False, micLabel := MicSpeaking,
                               micRecording := False\<rparr>)))"

subsection \<open>Voice selection, lines 141-160\<close>

definition find_voice :: "(voice \<Rightarrow> bool) \<Rightarrow> voice list \<Rightarrow> voice option" where
  "find_voice p vs = List.find p vs"

definition orElse :: "'a option \<Rightarrow> 'a option \<Rightarrow> 'a option" where
  \<comment> \<open>\<open>a || b\<close> on values that are an object or \<open>undefined\<close>\<close>
  "orElse a b = (case a of Some x \<Rightarrow> Some x | None \<Rightarrow> b)"

definition pickVoice :: "voice list \<Rightarrow> voice option" where
  "pickVoice vs =
     orElse (find_voice (\<lambda>v. str_includes (vname v) ''Samantha'') vs)
    (orElse (find_voice (\<lambda>v. str_includes (vname v) ''Karen'') vs)
    (orElse (find_voice (\<lambda>v. str_includes (vname v) ''Victoria'') vs)
    (orElse (find_voice (\<lambda>v. str_includes (vname v) ''Joanna'') vs)
    (orElse (find_voice (\<lambda>v. str_includes (vname v) ''Salli'') vs)
    (orElse (find_voice (\<lambda>v. str_includes (vname v) ''Google US English Female'') vs)
    (orElse (find_voice (\<lambda>v. str_includes (vname v) ''Zira'') vs)
    (orElse (find_voice (\<lambda>v. str_includes (vname v) ''Microsoft Zira'') vs)
    (orElse (find_voice (\<lambda>v. str_includes (toLowerCase (vname v)) ''female'') vs)
    (orElse (find_voice (\<lambda>v. vlang v = ''en-US''
                              \<and> str_includes (toLowerCase (vname v)) ''woman'') vs)
    (orElse (find_voice (\<lambda>v. vlang v = ''en-US'') vs)
            (case vs of [] \<Rightarrow> None | v # _ \<Rightarrow> Some v)))))))))))"

definition loadVoices :: "state \<Rightarrow> state" where
  "loadVoices s =
     (let s = s\<lparr>selectedVoice := pickVoice (voices s), voicesReady := True\<rparr>
      in log (''Selected voice: ''
               @ (case selectedVoice s of None \<Rightarrow> ''undefined'' | Some v \<Rightarrow> vname v)) s)"

subsection \<open>Speech output, lines 167-205\<close>

definition run_done :: "done_cb option \<Rightarrow> state \<Rightarrow> state" where
  \<comment> \<open>\<open>if (callback) callback()\<close>\<close>
  "run_done cb s =
     (case cb of None \<Rightarrow> s
      | Some ReadyAfterGreeting \<Rightarrow> log ''Ready to listen after greeting'' s)"

definition utterance_onend :: "utterance \<Rightarrow> state \<Rightarrow> state" where
  "utterance_onend u s = setTimeout (SpeakDone (ondone u)) 500 (log ''AI finished speaking'' s)"

definition utterance_onerror :: "utterance \<Rightarrow> state \<Rightarrow> state" where
  "utterance_onerror u s =
     setTimeout (SpeakDone (ondone u)) 500 (log ''Speech synthesis error'' s)"

definition speak :: "string option \<Rightarrow> done_cb option \<Rightarrow> state \<Rightarrow> outcome" where
  "speak text callback s =
     (if falsy text then Returns s
      else and_then (stopListening s) (\<lambda>s.
        let s = synth_cancel s;
            s = (if selectedVoice s = None then loadVoices s else s);
            u = \<lparr>utext = the text, uvoice = selectedVoice s, ondone = callback\<rparr>
        in Returns (synth_speak u s)))"

definition speak_done :: "done_cb option \<Rightarrow> state \<Rightarrow> outcome" where
  \<comment> \<open>the body of the timeout of lines 190-193 and 198-201\<close>
  "speak_done cb s = and_then (startListening s) (\<lambda>s. Returns (run_done cb s))"

subsection \<open>The page, lines 271-294\<close>

definition showScreen :: "screen \<Rightarrow> state \<Rightarrow> state" where
  "showScreen sc s = s\<lparr>activeScreen := sc\<rparr>"

definition showLoading :: "string \<Rightarrow> state \<Rightarrow> state" where
  "showLoading text s = s\<lparr>loadingText := text, loadingActive := True\<rparr>"

definition hideLoading :: "state \<Rightarrow> state" where
  "hideLoading s = s\<lparr>loadingActive := False\<rparr>"

definition addMessage :: "string option \<Rightarrow> bool \<Rightarrow> state \<Rightarrow> state" where
  "addMessage text isUser s = s\<lparr>chat := chat s @ [(text, isUser)]\<rparr>"

subsection \<open>Requests to the conversation service, lines 334-388\<close>

definition sendMessage_failed :: "state \<Rightarrow> outcome" where
  \<comment> \<open>the \<open>catch\<close> of lines 353-357\<close>
  "sendMessage_failed s =
     Returns (setTimeout ResumeAfterFailure 1000 (log ''Error sending message:'' s))"

definition sendMessage :: "string \<Rightarrow> state \<Rightarrow> outcome" where
  \<comment> \<open>up to the first \<open>await\<close>\<close>
  "sendMessage msg s =
     async (if msg = [] \<or> falsy (conversationId s) then Returns s
            else let s = addMessage (Some msg) True s;
                     s = s\<lparr>textInput := []\<rparr>
                 in Returns (fetch (SendReq (conversationId s) msg) s))"

definition sendMessage_settled :: "fetch_result \<Rightarrow> state \<Rightarrow> outcome" where
  \<comment> \<open>from the first \<open>await\<close> on; line 341 does not look at \<open>res.ok\<close>\<close>
  "sendMessage_settled r s =
     async (case r of
         Rejected \<Rightarrow> sendMessage_failed s
       | Responded ok None \<Rightarrow> sendMessage_failed s
       | Responded ok (Some data) \<Rightarrow>
           try_catch
             (let s = addMessage (response data) False s;
                  s = s\<lparr>turnCount := turn_count data\<rparr>
              in speak (response data) None s)
             (\<lambda>e s. sendMessage_failed s))"

definition stopListeningAndSend :: "state \<Rightarrow> outcome" where
  "stopListeningAndSend s =
     (let messageToSend = trim (finalTranscript s)
      in and_then (stopListening s) (\<lambda>s.
           if messageToSend \<noteq> []
           then sendMessage messageToSend (log (''Sending message: '' @ messageToSend) s)
           else Returns (setTimeout ResumeAfterSilence 500
                           (log ''No message to send, resuming listening'' s))))"

definition stopTimer :: "state \<Rightarrow> state" where
  "stopTimer s = clearTimeout (timerInterval s) s"

definition startTimer :: "state \<Rightarrow> state" where
  "startTimer s = (setTimeout Countdown 1000 s)\<lparr>timerInterval := Some (nextTimer s)\<rparr>"

definition cleanupEverything :: "state \<Rightarrow> outcome" where
  "cleanupEverything s =
     (let s = log ''Cleaning up speech and recognition...'' s;
          s = (if synth_speaking s then synth_cancel s else s)
      in and_then (stopListening s) (\<lambda>s.
           Returns (stopTimer (clearTimeout (silenceTimer s) s))))"

definition endConversation_failed :: "state \<Rightarrow> outcome" where
  \<comment> \<open>the \<open>catch\<close> of lines 383-387\<close>
  "endConversation_failed s =
     Returns (alert ''Failed to end conversation. Please try again.''
               (hideLoading (log ''Error ending conversation:'' s)))"

definition endConversation :: "state \<Rightarrow> outcome" where
  \<comment> \<open>up to the first \<open>await\<close>\<close>
  "endConversation s =
     async (and_then (stopListening (stopTimer s)) (\<lambda>s.
        let s = synth_cancel s;
            s = showLoading ''Analyzing your conversation...'' s
        in Returns (fetch (EndReq (conversationId s)) s)))"

definition endConversation_settled :: "fetch_result \<Rightarrow> state \<Rightarrow> outcome" where
  "endConversation_settled r s =
     async (case r of
         Rejected \<Rightarrow> endConversation_failed s
       | Responded ok None \<Rightarrow> endConversation_failed s
       | Responded ok (Some data) \<Rightarrow>
           try_catch
             (and_then (cleanupEverything s) (\<lambda>s.
                Returns (s\<lparr>location := Navigate (redirect data)\<rparr>)))
             (\<lambda>e s. endConversation_failed s))"

definition startConversation_failed :: "state \<Rightarrow> outcome" where
  \<comment> \<open>the \<open>catch\<close> of lines 327-331\<close>
  "startConversation_failed s =
     Returns (alert ''Failed to start conversation. Please try again.''
               (hideLoading (log ''Error starting conversation:'' s)))"

definition startConversation_wait :: "nat \<Rightarrow> state \<Rightarrow> outcome" where
  \<comment> \<open>lines 303-309 from the test of the loop, \<open>attempts\<close> given, to the \<open>await\<close> it
      reaches: the 50 ms pause of the loop or the request\<close>
  "startConversation_wait attempts s =
     (if \<not> voicesReady s \<and> attempts < 60
      then Returns (setTimeout (VoicePoll (Suc attempts)) 50 s)
      else let s = (if \<not> voicesReady s then loadVoices s else s)
           in Returns (fetch StartReq s))"

definition startConversation :: "state \<Rightarrow> outcome" where
  "startConversation s =
     async (try_catch (startConversation_wait 0 (showLoading ''Starting conversation...'' s))
                      (\<lambda>e s. startConversation_failed s))"

definition startConversation_resumed :: "nat \<Rightarrow> state \<Rightarrow> outcome" where
  \<comment> \<open>after the pause of line 304\<close>
  "startConversation_resumed attempts s =
     async (try_catch (startConversation_wait attempts s) (\<lambda>e s. startConversation_failed s))"

definition startConversation_settled :: "fetch_result \<Rightarrow> state \<Rightarrow> outcome" where
  "startConversation_settled r s =
     async (case r of
         Rejected \<Rightarrow> startConversation_failed s
       | Responded ok body \<Rightarrow>
           if \<not> ok then startConversation_failed s
           else (case body of
               None \<Rightarrow> startConversation_failed s
             | Some data \<Rightarrow>
                 try_catch
                   (let s = s\<lparr>conversationId := conversation_id data\<rparr>;
                        s = s\<lparr>chat := []\<rparr>;
                        s = hideLoading s;
                        s = showScreen Conversation s;
                        s = addMessage (greeting data) False s
                    in and_then (speak (greeting data) (Some ReadyAfterGreeting) s)
                         (\<lambda>s. Returns (startTimer s)))
                   (\<lambda>e s. startConversation_failed s)))"

subsection \<open>The countdown, lines 255-264\<close>

definition js_rem :: "int \<Rightarrow> int \<Rightarrow> int" where
  \<comment> \<open>\<open>%\<close> takes the sign of the dividend\<close>
  "js_rem a b = sgn a * (\<bar>a\<bar> mod \<bar>b\<bar>)"

definition countdown :: "state \<Rightarrow> outcome" where
  \<comment> \<open>the display is kept as the two numbers that line 260 pads and joins\<close>
  "countdown s =
     (let s = s\<lparr>timeRemaining := timeRemaining s - 1\<rparr>;
          s = s\<lparr>timerDisplay := Some (timeRemaining s div 60, js_rem (timeRemaining s) 60)\<rparr>
      in if timeRemaining s \<le> 0 then endConversation s else Returns s)"

subsection \<open>The recogniser's handlers, lines 53-138\<close>

definition recognition_onstart :: "state \<Rightarrow> state" where
  "recognition_onstart s =
     (log ''Recognition started'' s)
       \<lparr>isListening := True, voiceIndicator := True, micLabel := MicListening,
        micRecording := True\<rparr>"

fun process_results :: "(string \<times> bool) list \<Rightarrow> state \<Rightarrow> state" where
  \<comment> \<open>the loop of lines 80-88 over the results from \<open>resultIndex\<close> on; a result is the
      transcript of its first alternative and its \<open>isFinal\<close>\<close>
  "process_results [] s = s"
| "process_results ((transcript, isFinal) # rs) s =
     process_results rs
       (if isFinal then s\<lparr>finalTranscript := finalTranscript s @ transcript @ '' ''\<rparr>
        else s\<lparr>interimTranscript := interimTranscript s @ transcript\<rparr>)"

definition recognition_onresult :: "nat \<Rightarrow> (string \<times> bool) list \<Rightarrow> state \<Rightarrow> state" where
  "recognition_onresult resultIndex results s =
     (let s = clearTimeout (silenceTimer s) s;
          s = s\<lparr>interimTranscript := []\<rparr>;
          s = process_results (drop resultIndex results) s;
          s = log (''Interim: '' @ interimTranscript s) s;
          s = log (''Final so far: '' @ finalTranscript s) s
      in (setTimeout SilenceExpired 5000 s)\<lparr>silenceTimer := Some (nextTimer s)\<rparr>)"

definition recognition_onerror :: "string \<Rightarrow> state \<Rightarrow> state" where
  "recognition_onerror err s =
     (let s = log (''Recognition error: '' @ err) s
      in if err = ''no-speech'' then log ''No speech detected, waiting...'' s
         else if err \<noteq> ''aborted''
         then setTimeout ErrorRestart 1000 (log ''Attempting to restart recognition...'' s)
         else s)"

definition restart_if_listening :: "state \<Rightarrow> outcome" where
  \<comment> \<open>the body of the timeouts of lines 113-117 and 127-131\<close>
  "restart_if_listening s = (if isListening s then startListening s else Returns s)"

definition recognition_onend :: "state \<Rightarrow> state" where
  "recognition_onend s =
     (let s = log ''Recognition ended'' s
      in if isListening s
         then setTimeout EndRestart 100 (log ''Restarting recognition...'' s)
         else s)"

definition setupSpeechRecognition :: "state \<Rightarrow> state" where
  "setupSpeechRecognition s =
     (if srSupported s then s\<lparr>recognition := True\<rparr>
      else (alert ''Speech recognition not supported in this browser. Please use Chrome, Edge, or Safari.'' s)
             \<lparr>micHidden := True\<rparr>)"

subsection \<open>Timer callbacks and page events, lines 390-461\<close>

definition run_callback :: "callback \<Rightarrow> state \<Rightarrow> outcome" where
  "run_callback cb s =
     (case cb of
        SilenceExpired \<Rightarrow> stopListeningAndSend (log ''5 seconds of silence detected'' s)
      | ErrorRestart \<Rightarrow> restart_if_listening s
      | EndRestart \<Rightarrow> restart_if_listening s
      | SpeakDone d \<Rightarrow> speak_done d s
      | ResumeAfterSilence \<Rightarrow> startListening s
      | ResumeAfterFailure \<Rightarrow> startListening s
      | VoicePoll n \<Rightarrow> startConversation_resumed n s
      | Countdown \<Rightarrow> countdown s)"

definition sendBtn_onclick :: "state \<Rightarrow> outcome" where
  "sendBtn_onclick s =
     (let msg = trim (textInput s)
      in if msg \<noteq> []
         then and_then (stopListeningAndSend s) (\<lambda>s. sendMessage msg (s\<lparr>textInput := msg\<rparr>))
         else Returns s)"

definition textInput_onkeypress :: "string \<Rightarrow> state \<Rightarrow> outcome" where
  "textInput_onkeypress key s =
     (if key = ''Enter''
      then let msg = trim (textInput s) in if msg \<noteq> [] then sendMessage msg s else Returns s
      else Returns s)"

definition restartBtn_onclick :: "state \<Rightarrow> outcome" where
  "restartBtn_onclick s =
     and_then (cleanupEverything s) (\<lambda>s. Returns (s\<lparr>location := Navigate (Some ''/'')\<rparr>))"

definition on_beforeunload :: "state \<Rightarrow> outcome" where
  "on_beforeunload s = cleanupEverything (log ''Page unloading - cleaning up...'' s)"

definition on_pagehide :: "state \<Rightarrow> outcome" where
  "on_pagehide s = cleanupEverything (log ''Page hiding - cleaning up...'' s)"

definition on_visibilitychange :: "bool \<Rightarrow> state \<Rightarrow> state" where
  "on_visibilitychange hidden s =
     (if hidden then (log ''Page hidden - pausing speech...'' s)\<lparr>paused := True\<rparr>
      else (log ''Page visible - resuming speech...'' s)\<lparr>paused := False\<rparr>)"

definition on_DOMContentLoaded :: "state \<Rightarrow> state" where
  "on_DOMContentLoaded s = loadVoices (setupSpeechRecognition (s\<lparr>domReady := True\<rparr>))"

definition on_voiceschanged :: "voice list \<Rightarrow> state \<Rightarrow> state" where
  "on_voiceschanged vs s = loadVoices (s\<lparr>voices := vs\<rparr>)"

section \<open>What the browser delivers\<close>

text \<open>
  The browser is taken to behave as follows.
  \<^item> The recogniser is idle, starting (\<open>start()\<close> called, start event not yet delivered),
    running, or stopping (\<open>stop()\<close> called, end event not yet delivered). It delivers its
    start event only while starting, results while running or stopping (a last result may
    follow \<open>stop()\<close>), an error or its end whenever it is not idle.
  \<^item> The synthesiser speaks the head of its queue and delivers either the end or the error
    event of that utterance, which then leaves the queue. To an utterance removed by
    \<open>cancel()\<close> it may still deliver an error event.
  \<^item> A timeout is delivered once, not before it is due; the interval is due again every
    1000 ms. Identifiers are never reused.
  \<^item> A request settles once. Buttons and the text field respond on the screen that shows
    them; once the page has navigated away only the unload events are delivered.
\<close>

datatype event =
    DOMContentLoaded
  | VoicesChanged "voice list"
  | ClickStart
  | ClickSend
  | ClickEnd
  | ClickRestart
  | TypeText string                         \<comment> \<open>the user edits the text field\<close>
  | KeyPress string
  | RecStart
  | RecResult nat "(string \<times> bool) list"
  | RecError string
  | RecEnd
  | UttEnd
  | UttError
  | UttInterrupted                          \<comment> \<open>error event of a cancelled utterance\<close>
  | Elapse nat
  | TimerFire nat
  | FetchSettled nat fetch_result
  | BeforeUnload
  | PageHide
  | VisibilityChange bool

definition lookup_timer :: "nat \<Rightarrow> state \<Rightarrow> timer option" where
  "lookup_timer i s = List.find (\<lambda>t. fst t = i) (timers s)"

definition enabled :: "event \<Rightarrow> state \<Rightarrow> bool" where
  "enabled e s =
     (case e of
        BeforeUnload \<Rightarrow> True
      | PageHide \<Rightarrow> True
      | _ \<Rightarrow> location s = Stay \<and>
         (case e of
            DOMContentLoaded \<Rightarrow> \<not> domReady s
          | ClickStart \<Rightarrow> domReady s \<and> activeScreen s = Welcome
          | ClickSend \<Rightarrow> domReady s \<and> activeScreen s = Conversation
          | ClickEnd \<Rightarrow> domReady s \<and> activeScreen s = Conversation
          | ClickRestart \<Rightarrow> domReady s \<and> activeScreen s = Feedback
          | TypeText x \<Rightarrow> domReady s \<and> activeScreen s = Conversation
          | KeyPress k \<Rightarrow> domReady s \<and> activeScreen s = Conversation
          | RecStart \<Rightarrow> engine s = Starting
          | RecResult i rs \<Rightarrow> engine s = Running \<or> engine s = Stopping
          | RecError c \<Rightarrow> engine s \<noteq> Idle
          | RecEnd \<Rightarrow> engine s \<noteq> Idle
          | UttEnd \<Rightarrow> queue s \<noteq> [] \<and> \<not> paused s
          | UttError \<Rightarrow> queue s \<noteq> []
          | UttInterrupted \<Rightarrow> cancelled s \<noteq> []
          | TimerFire i \<Rightarrow>
              (case lookup_timer i s of None \<Rightarrow> False | Some (j, due, cb) \<Rightarrow> due \<le> now s)
          | FetchSettled i r \<Rightarrow> i \<in> set (pending s) \<and> i < length (requests s)
          | _ \<Rightarrow> True))"

definition take_timer :: "nat \<Rightarrow> callback \<Rightarrow> state \<Rightarrow> state" where
  \<comment> \<open>an expired timeout leaves the queue; the interval is due again 1000 ms later\<close>
  "take_timer i cb s =
     (if cb = Countdown
      then s\<lparr>timers := map (\<lambda>(j, due, c). if j = i then (j, due + 1000, c) else (j, due, c))
                            (timers s)\<rparr>
      else clearTimeout (Some i) s)"

definition settle :: "nat \<Rightarrow> fetch_result \<Rightarrow> state \<Rightarrow> outcome" where
  "settle i r s =
     (let s' = s\<lparr>pending := filter (\<lambda>j. j \<noteq> i) (pending s)\<rparr>
      in if i < length (requests s)
         then (case requests s ! i of
                 StartReq \<Rightarrow> startConversation_settled r s'
               | SendReq c m \<Rightarrow> sendMessage_settled r s'
               | EndReq c \<Rightarrow> endConversation_settled r s')
         else Returns s')"

definition deliver :: "event \<Rightarrow> state \<Rightarrow> outcome" where
  "deliver e s =
     (case e of
        DOMContentLoaded \<Rightarrow> Returns (on_DOMContentLoaded s)
      | VoicesChanged vs \<Rightarrow> Returns (on_voiceschanged vs s)
      | ClickStart \<Rightarrow> startConversation s
      | ClickSend \<Rightarrow> sendBtn_onclick s
      | ClickEnd \<Rightarrow> endConversation s
      | ClickRestart \<Rightarrow> restartBtn_onclick s
      | TypeText x \<Rightarrow> Returns (s\<lparr>textInput := x\<rparr>)
      | KeyPress k \<Rightarrow> textInput_onkeypress k s
      | RecStart \<Rightarrow> Returns (recognition_onstart (s\<lparr>engine := Running\<rparr>))
      | RecResult i rs \<Rightarrow> Returns (recognition_onresult i rs s)
      | RecError c \<Rightarrow> Returns (recognition_onerror c s)
      | RecEnd \<Rightarrow> Returns (recognition_onend (s\<lparr>engine := Idle\<rparr>))
      | UttEnd \<Rightarrow>
          (case queue s of [] \<Rightarrow> Returns s
           | u # us \<Rightarrow> Returns (utterance_onend u (s\<lparr>queue := us\<rparr>)))
      | UttError \<Rightarrow>
          (case queue s of [] \<Rightarrow> Returns s
           | u # us \<Rightarrow> Returns (utterance_onerror u (s\<lparr>queue := us\<rparr>)))
      | UttInterrupted \<Rightarrow>
          (case cancelled s of [] \<Rightarrow> Returns s
           | u # us \<Rightarrow> Returns (utterance_onerror u (s\<lparr>cancelled := us\<rparr>)))
      | Elapse d \<Rightarrow> Returns (s\<lparr>now := now s + d\<rparr>)
      | TimerFire i \<Rightarrow>
          (case lookup_timer i s of None \<Rightarrow> Returns s
           | Some (j, due, cb) \<Rightarrow> run_callback cb (take_timer i cb s))
      | FetchSettled i r \<Rightarrow> settle i r s
      | BeforeUnload \<Rightarrow> on_beforeunload s
      | PageHide \<Rightarrow> on_pagehide s
      | VisibilityChange h \<Rightarrow> Returns (on_visibilitychange h s))"

definition handle :: "event \<Rightarrow> state \<Rightarrow> state" where
  \<comment> \<open>an exception that no handler catches ends the handler; the page goes on\<close>
  "handle e s = state_of (deliver e s)"

fun run :: "event list \<Rightarrow> state \<Rightarrow> state option" where
  "run [] s = Some s"
| "run (e # es) s = (if enabled e s then run es (handle e s) else None)"

definition blank :: "bool \<Rightarrow> voice list \<Rightarrow> state" where
  \<comment> \<open>lines 22-33 and an untouched page, on a browser with the given capabilities\<close>
  "blank sr vs =
     \<lparr>conversationId = None, recognition = False, isListening = False,
      timerInterval = None, timeRemaining = 300, selectedVoice = None,
      voicesReady = False, silenceTimer = None, finalTranscript = [],
      interimTranscript = [],
      voiceIndicator = False, micLabel = MicInitial, micRecording = False,
      micHidden = False, loadingText = [], loadingActive = False,
      activeScreen = Welcome, chat = [], textInput = [], timerDisplay = None,
      turnCount = None, alerts = [], console = [], location = Stay,
      domReady = False, srSupported = sr, voices = vs, now = 0, nextTimer = 1,
      timers = [], engine = Idle, queue = [], cancelled = [], paused = False,
      requests = [], pending = []\<rparr>"

definition initial :: "bool \<Rightarrow> voice list \<Rightarrow> state" where
  \<comment> \<open>the state once the script has run: line 165 and line 430\<close>
  "initial sr vs = (loadVoices (blank sr vs))\<lparr>micHidden := True\<rparr>"

inductive reachable :: "state \<Rightarrow> bool" where
  start: "reachable (initial sr vs)"
| step: "reachable s \<Longrightarrow> enabled e s \<Longrightarrow> reachable (handle e s)"

section \<open>Observations on a state\<close>

definition timers_ok :: "state \<Rightarrow> bool" where
  \<comment> \<open>identifiers are fresh and distinct, and a pending silence timeout is the one
      \<open>silenceTimer\<close> names\<close>
  "timers_ok s \<longleftrightarrow>
     (\<forall>t \<in> set (timers s). fst t < nextTimer s) \<and>
     distinct (map fst (timers s)) \<and>
     (\<forall>t \<in> set (timers s). snd (snd t) = SilenceExpired \<longrightarrow> silenceTimer s = Some (fst t))"

definition silence_deadlines :: "state \<Rightarrow> nat list" where
  \<comment> \<open>the instants at which a pending silence timeout is due\<close>
  "silence_deadlines s =
     map (\<lambda>t. fst (snd t)) (filter (\<lambda>t. snd (snd t) = SilenceExpired) (timers s))"

definition sound :: "state \<Rightarrow> bool" where
  \<comment> \<open>the voices have been looked up; a recogniser that is not idle, or a pending silence
      timeout, comes with a recogniser object; a running recogniser has set \<open>isListening\<close>\<close>
  "sound s \<longleftrightarrow>
     voicesReady s \<and> (engine s \<noteq> Idle \<longrightarrow> recognition s) \<and>
     (engine s = Running \<longrightarrow> isListening s) \<and>
     (silence_deadlines s \<noteq> [] \<longrightarrow> recognition s)"

fun progress :: "(nat \<times> nat \<times> (string \<times> bool) list) list \<Rightarrow> state \<Rightarrow> state" where
  \<comment> \<open>a run of result events, each after the given pause\<close>
  "progress [] s = s"
| "progress ((d, i, rs) # es) s = progress es (handle (RecResult i rs) (handle (Elapse d) s))"

section \<open>Scenarios\<close>

fun after :: "event list \<Rightarrow> state \<Rightarrow> state" where
  "after [] s = s"
| "after (e # es) s = after es (handle e s)"

definition hi :: json where
  "hi = \<lparr>conversation_id = Some ''c1'', greeting = Some ''Hi'', response = None,
         turn_count = None, redirect = None\<rparr>"

definition sure :: json where
  "sure = \<lparr>conversation_id = None, greeting = None, response = Some ''Sure'',
           turn_count = Some 1, redirect = None\<rparr>"

definition to_mic_starting :: "event list" where
  \<comment> \<open>the greeting has been spoken and the timeout of line 190 has called
      \<open>startListening\<close>; the recogniser has not reported its start yet\<close>
  "to_mic_starting =
     [DOMContentLoaded, ClickStart, FetchSettled 0 (Responded True (Some hi)),
      UttEnd, Elapse 500, TimerFire 2]"

definition mic_starting :: state where
  "mic_starting = after to_mic_starting (initial True [])"

definition to_listening :: "event list" where
  \<comment> \<open>as before, and the recogniser has reported its start\<close>
  "to_listening = to_mic_starting @ [RecStart]"

definition listening :: state where
  "listening = after to_listening (initial True [])"

definition two_updates :: "(nat \<times> nat \<times> (string \<times> bool) list) list" where
  "two_updates = [(100, 0, [(''hel'', False)]), (700, 0, [(''hello'', True)])]"

definition ended :: "state \<Rightarrow> state" where
  \<comment> \<open>the state in which \<open>endConversation\<close> leaves its caller\<close>
  "ended s = state_of (endConversation s)"

definition page :: "state \<Rightarrow> bool \<times> mic_label \<times> bool \<times> bool \<times> string \<times> bool \<times> screen \<times>
    (string option \<times> bool) list \<times> string \<times> (int \<times> int) option \<times> nat option \<times> string list \<times> nav" where
  \<comment> \<open>what the user can see\<close>
  "page s = (voiceIndicator s, micLabel s, micRecording s, micHidden s, loadingText s,
             loadingActive s, activeScreen s, chat s, textInput s, timerDisplay s,
             turnCount s, alerts s, location s)"

definition double_start :: "event list" where
  "double_start = [DOMContentLoaded, ClickStart, ClickStart]"

definition double_end :: "event list" where
  "double_end = to_listening @ [ClickEnd, ClickEnd]"

definition to_send_failure :: "event list" where
  \<comment> \<open>the user says hello, stays silent for 5 s, and the request is rejected\<close>
  "to_send_failure =
     to_listening @ [RecResult 0 [(''hello'', True)], Elapse 5000, TimerFire 3,
                     FetchSettled 1 Rejected]"

definition recogniser_ends :: "state \<Rightarrow> event list" where
  \<comment> \<open>a recogniser that has been started reports its end\<close>
  "recogniser_ends s = (if engine s = Idle then [] else [RecEnd])"

definition ready :: string where
  \<comment> \<open>what the callback of line 322 writes\<close>
  "ready = ''Ready to listen after greeting''"

definition to_quiet :: "event list" where
  \<comment> \<open>the recogniser has reported a guess but nothing final, and 5 s have passed\<close>
  "to_quiet = to_listening @ [RecResult 0 [(''hel'', False)], Elapse 5000]"

definition quiet :: state where
  "quiet = after to_quiet (initial True [])"

definition empty_greeting :: json where
  "empty_greeting = hi\<lparr>greeting := Some []\<rparr>"

definition to_empty_greeting :: "event list" where
  "to_empty_greeting =
     [DOMContentLoaded, ClickStart, FetchSettled 0 (Responded True (Some empty_greeting))]"

definition to_overlap :: "event list" where
  \<comment> \<open>the user types a message during the greeting; the reply arrives within the 500 ms
      between the end of the greeting and the timeout of line 190\<close>
  "to_overlap =
     [DOMContentLoaded, ClickStart, FetchSettled 0 (Responded True (Some hi)),
      TypeText ''a'', KeyPress ''Enter'', UttEnd,
      FetchSettled 1 (Responded True (Some sure)), Elapse 500, TimerFire 2, RecStart]"

definition to_overlap_by_voice :: "event list" where
  \<comment> \<open>no typing: the recogniser delivers a last result after \<open>stop()\<close>, which arms the
      silence timeout again; it expires before the first reply arrives and the utterance
      is sent a second time; the second reply arrives within 500 ms of the end of the
      first\<close>
  "to_overlap_by_voice =
     to_listening @
     [RecResult 0 [(''hello'', True)], Elapse 5000, TimerFire 3,
      RecResult 1 [(''hello'', True), (''there'', True)], RecEnd, Elapse 5000, TimerFire 4,
      FetchSettled 1 (Responded True (Some sure)), UttEnd,
      FetchSettled 2 (Responded True (Some sure)), Elapse 500, TimerFire 5, RecStart]"

definition kept :: "nat \<Rightarrow> timer list \<Rightarrow> state \<Rightarrow> bool" where
  \<comment> \<open>\<open>silenceTimer\<close> and \<open>timerInterval\<close> name identifiers already handed out, neither
      names \<open>k\<close>, and the pending timers with identifier \<open>k\<close> are \<open>xs\<close>\<close>
  "kept k xs s \<longleftrightarrow>
     (\<forall>i. silenceTimer s = Some i \<or> timerInterval s = Some i \<longrightarrow> i < nextTimer s) \<and>
     k < nextTimer s \<and> silenceTimer s \<noteq> Some k \<and> timerInterval s \<noteq> Some k \<and>
     filter (\<lambda>t. fst t = k) (timers s) = xs"

definition to_greeted :: "event list" where
  "to_greeted = [DOMContentLoaded, ClickStart, FetchSettled 0 (Responded True (Some hi))]"

definition greeted :: state where
  \<comment> \<open>the greeting is being spoken\<close>
  "greeted = after to_greeted (initial True [])"

definition error_body :: json where
  \<comment> \<open>the JSON body of an error response: none of the fields the page reads\<close>
  "error_body = \<lparr>conversation_id = None, greeting = None, response = None,
                 turn_count = None, redirect = None\<rparr>"

definition to_deaf_after_silence :: "event list" where
  \<comment> \<open>from \<open>quiet\<close>: the silence timeout, then the timeout of line 250 before the
      recogniser has reported its end\<close>
  "to_deaf_after_silence = to_quiet @ [TimerFire 3, Elapse 500, TimerFire 4, RecEnd]"

definition to_deaf_after_speech :: "event list" where
  \<comment> \<open>a typed message while listening; the reply cannot be spoken; the timeout of line 198
      comes before the recogniser has reported its end\<close>
  "to_deaf_after_speech =
     to_listening @
     [TypeText ''a'', KeyPress ''Enter'', FetchSettled 1 (Responded True (Some sure)),
      UttError, Elapse 500, TimerFire 3, RecEnd]"

definition to_http_error :: "event list" where
  \<comment> \<open>the user says hello; the service answers with an error status and a JSON body\<close>
  "to_http_error =
     to_listening @
     [RecResult 0 [(''hello'', True)], Elapse 5000, TimerFire 3, RecEnd,
      FetchSettled 1 (Responded False (Some error_body))]"

definition to_deaf_after_failure :: "event list" where
  \<comment> \<open>the rejected request, then the timeout of line 356 before the recogniser has
      reported its end\<close>
  "to_deaf_after_failure = to_send_failure @ [Elapse 1000, TimerFire 4, RecEnd]"

section \<open>Properties\<close>

text \<open>A scenario is evaluated by unfolding the definitions of the model.\<close>

lemmas model_defs =
  and_then_def try_catch_def async_def log_def alert_def setTimeout_def
  without_timer_def clearTimeout_def recognition_start_def recognition_stop_def
  synth_cancel_def synth_speak_def synth_speaking_def fetch_def is_space_def trim_def
  toLowerCase_def str_includes_def falsy_def startListening_def stopListening_def
  find_voice_def orElse_def pickVoice_def loadVoices_def run_done_def
  utterance_onend_def utterance_onerror_def speak_def speak_done_def showScreen_def
  showLoading_def hideLoading_def addMessage_def sendMessage_failed_def sendMessage_def
  sendMessage_settled_def stopListeningAndSend_def stopTimer_def startTimer_def
  cleanupEverything_def endConversation_failed_def endConversation_def
  endConversation_settled_def startConversation_failed_def startConversation_wait_def
  startConversation_def startConversation_resumed_def startConversation_settled_def
  js_rem_def countdown_def recognition_onstart_def recognition_onresult_def
  recognition_onerror_def restart_if_listening_def recognition_onend_def
  setupSpeechRecognition_def run_callback_def sendBtn_onclick_def
  textInput_onkeypress_def restartBtn_onclick_def on_beforeunload_def on_pagehide_def
  on_visibilitychange_def on_DOMContentLoaded_def on_voiceschanged_def lookup_timer_def
  enabled_def take_timer_def settle_def deliver_def handle_def blank_def initial_def
  timers_ok_def silence_deadlines_def sound_def hi_def sure_def to_mic_starting_def
  mic_starting_def to_listening_def listening_def two_updates_def ended_def page_def
  double_start_def double_end_def to_send_failure_def recogniser_ends_def ready_def
  to_quiet_def quiet_def empty_greeting_def to_empty_greeting_def to_overlap_def
  to_overlap_by_voice_def kept_def to_greeted_def greeted_def error_body_def
  to_deaf_after_silence_def to_deaf_after_speech_def to_http_error_def
  to_deaf_after_failure_def

subsection \<open>What \<open>startListening\<close> and \<open>stopListening\<close> return\<close>

lemma startListening_cases:
  "startListening s =
     Returns (if \<not> recognition s \<or> isListening s then s
              else if engine s = Idle
              then s\<lparr>finalTranscript := [], interimTranscript := [], engine := Starting\<rparr>
              else log ''Error starting recognition:''
                     (s\<lparr>finalTranscript := [], interimTranscript := []\<rparr>))"
  by (simp add: startListening_def try_catch_def recognition_start_def)

lemma stopListening_cases:
  "stopListening s =
     Returns (if \<not> recognition s then s
              else (clearTimeout (silenceTimer s) (s\<lparr>isListening := False\<rparr>))
                     \<lparr>engine := (if engine s = Idle then Idle else Stopping),
                      voiceIndicator := False, micLabel := MicSpeaking,
                      micRecording := False\<rparr>)"
  by (simp add: stopListening_def and_then_def try_catch_def recognition_stop_def
        clearTimeout_def without_timer_def split: option.split)

subsection \<open>The timer queue stays well-formed\<close>

lemma timers_ok_clearTimeout: "timers_ok s \<Longrightarrow> timers_ok (clearTimeout h s)"
  by (auto simp: timers_ok_def clearTimeout_def without_timer_def distinct_map_filter split: option.split)

lemma timers_ok_setTimeout:
  "timers_ok s \<Longrightarrow> cb \<noteq> SilenceExpired \<Longrightarrow> timers_ok (setTimeout cb d s)"
  by (fastforce simp: timers_ok_def setTimeout_def)

lemma timers_ok_startListening: "timers_ok s \<Longrightarrow> timers_ok (state_of (startListening s))"
  by (simp add: startListening_cases timers_ok_def log_def)

lemma timers_ok_stopListening: "timers_ok s \<Longrightarrow> timers_ok (state_of (stopListening s))"
  by (auto simp: stopListening_cases timers_ok_def clearTimeout_def without_timer_def distinct_map_filter split: option.split)

lemma state_of_async [simp]: "state_of (async r) = state_of r"
  by (simp add: async_def)

lemma ok_and_then:
  "timers_ok (state_of r) \<Longrightarrow> (\<And>s'. timers_ok s' \<Longrightarrow> timers_ok (state_of (g s')))
   \<Longrightarrow> timers_ok (state_of (and_then r g))"
  by (cases r) (simp_all add: and_then_def)

lemma ok_try_catch:
  "timers_ok (state_of r) \<Longrightarrow> (\<And>e s'. timers_ok s' \<Longrightarrow> timers_ok (state_of (h e s')))
   \<Longrightarrow> timers_ok (state_of (try_catch r h))"
  by (cases r) (simp_all add: try_catch_def)

lemma timers_ok_neutral [simp]:
  "timers_ok (log m s) = timers_ok s"
  "timers_ok (alert m s) = timers_ok s"
  "timers_ok (fetch r s) = timers_ok s"
  "timers_ok (addMessage x b s) = timers_ok s"
  "timers_ok (showLoading m s) = timers_ok s"
  "timers_ok (hideLoading s) = timers_ok s"
  "timers_ok (showScreen sc s) = timers_ok s"
  "timers_ok (synth_cancel s) = timers_ok s"
  "timers_ok (synth_speak u s) = timers_ok s"
  "timers_ok (loadVoices s) = timers_ok s"
  "timers_ok (run_done d s) = timers_ok s"
  "timers_ok (recognition_onstart s) = timers_ok s"
  "timers_ok (setupSpeechRecognition s) = timers_ok s"
  "timers_ok (on_visibilitychange h s) = timers_ok s"
  by (simp_all add: timers_ok_def log_def alert_def fetch_def addMessage_def showLoading_def
        hideLoading_def showScreen_def synth_cancel_def synth_speak_def loadVoices_def
        run_done_def recognition_onstart_def setupSpeechRecognition_def
        on_visibilitychange_def split: option.split done_cb.split)

lemma timers_ok_update [simp]:
  "timers_ok (s\<lparr>conversationId := a1\<rparr>) = timers_ok s"
  "timers_ok (s\<lparr>chat := a2\<rparr>) = timers_ok s"
  "timers_ok (s\<lparr>textInput := a3\<rparr>) = timers_ok s"
  "timers_ok (s\<lparr>turnCount := a4\<rparr>) = timers_ok s"
  "timers_ok (s\<lparr>location := a5\<rparr>) = timers_ok s"
  "timers_ok (s\<lparr>timeRemaining := a6\<rparr>) = timers_ok s"
  "timers_ok (s\<lparr>timerDisplay := a7\<rparr>) = timers_ok s"
  "timers_ok (s\<lparr>timerInterval := a8\<rparr>) = timers_ok s"
  "timers_ok (s\<lparr>domReady := a9\<rparr>) = timers_ok s"
  "timers_ok (s\<lparr>voices := a10\<rparr>) = timers_ok s"
  "timers_ok (s\<lparr>engine := a11\<rparr>) = timers_ok s"
  "timers_ok (s\<lparr>queue := a12\<rparr>) = timers_ok s"
  "timers_ok (s\<lparr>cancelled := a13\<rparr>) = timers_ok s"
  "timers_ok (s\<lparr>pending := a14\<rparr>) = timers_ok s"
  "timers_ok (s\<lparr>now := a15\<rparr>) = timers_ok s"
  by (simp_all add: timers_ok_def)

lemma timers_ok_sendMessage: "timers_ok s \<Longrightarrow> timers_ok (state_of (sendMessage m s))"
  by (simp add: sendMessage_def Let_def)

lemma timers_ok_speak: "timers_ok s \<Longrightarrow> timers_ok (state_of (speak x d s))"
  unfolding speak_def
  by (auto intro!: ok_and_then timers_ok_stopListening simp: Let_def)

lemma timers_ok_speak_done: "timers_ok s \<Longrightarrow> timers_ok (state_of (speak_done d s))"
  unfolding speak_done_def
  by (auto intro!: ok_and_then timers_ok_startListening)

lemma timers_ok_utterance:
  "timers_ok s \<Longrightarrow> timers_ok (utterance_onend u s)"
  "timers_ok s \<Longrightarrow> timers_ok (utterance_onerror u s)"
  by (simp_all add: utterance_onend_def utterance_onerror_def timers_ok_setTimeout)

lemma timers_ok_sendMessage_failed:
  "timers_ok s \<Longrightarrow> timers_ok (state_of (sendMessage_failed s))"
  by (simp add: sendMessage_failed_def timers_ok_setTimeout)

lemma timers_ok_sendMessage_settled:
  "timers_ok s \<Longrightarrow> timers_ok (state_of (sendMessage_settled r s))"
  unfolding sendMessage_settled_def
  by (auto intro!: ok_try_catch timers_ok_speak timers_ok_sendMessage_failed
        simp: Let_def split: fetch_result.split option.split)

lemma timers_ok_stopListeningAndSend:
  "timers_ok s \<Longrightarrow> timers_ok (state_of (stopListeningAndSend s))"
  unfolding stopListeningAndSend_def
  by (auto intro!: ok_and_then timers_ok_stopListening timers_ok_sendMessage
        timers_ok_setTimeout simp: Let_def)

lemma timers_ok_stopTimer: "timers_ok s \<Longrightarrow> timers_ok (stopTimer s)"
  by (simp add: stopTimer_def timers_ok_clearTimeout)

lemma timers_ok_startTimer: "timers_ok s \<Longrightarrow> timers_ok (startTimer s)"
  by (simp add: startTimer_def timers_ok_setTimeout)

lemma timers_ok_cleanupEverything:
  "timers_ok s \<Longrightarrow> timers_ok (state_of (cleanupEverything s))"
  unfolding cleanupEverything_def
  by (auto intro!: ok_and_then timers_ok_stopListening timers_ok_stopTimer
        timers_ok_clearTimeout simp: Let_def)

lemma timers_ok_endConversation_failed:
  "timers_ok s \<Longrightarrow> timers_ok (state_of (endConversation_failed s))"
  by (simp add: endConversation_failed_def)

lemma timers_ok_endConversation:
  "timers_ok s \<Longrightarrow> timers_ok (state_of (endConversation s))"
  unfolding endConversation_def
  by (auto intro!: ok_and_then timers_ok_stopListening timers_ok_stopTimer simp: Let_def)

lemma timers_ok_endConversation_settled:
  "timers_ok s \<Longrightarrow> timers_ok (state_of (endConversation_settled r s))"
  unfolding endConversation_settled_def
  by (auto intro!: ok_try_catch ok_and_then timers_ok_cleanupEverything
        timers_ok_endConversation_failed split: fetch_result.split option.split)

lemma timers_ok_startConversation_failed:
  "timers_ok s \<Longrightarrow> timers_ok (state_of (startConversation_failed s))"
  by (simp add: startConversation_failed_def)

lemma timers_ok_startConversation_wait:
  "timers_ok s \<Longrightarrow> timers_ok (state_of (startConversation_wait n s))"
  by (simp add: startConversation_wait_def timers_ok_setTimeout Let_def)

lemma timers_ok_startConversation:
  "timers_ok s \<Longrightarrow> timers_ok (state_of (startConversation s))"
  "timers_ok s \<Longrightarrow> timers_ok (state_of (startConversation_resumed n s))"
  unfolding startConversation_def startConversation_resumed_def
  by (auto intro!: ok_try_catch timers_ok_startConversation_wait
        timers_ok_startConversation_failed)

lemma timers_ok_startConversation_settled:
  "timers_ok s \<Longrightarrow> timers_ok (state_of (startConversation_settled r s))"
  unfolding startConversation_settled_def
  by (auto intro!: ok_try_catch ok_and_then timers_ok_speak timers_ok_startTimer
        timers_ok_startConversation_failed simp: Let_def
        split: fetch_result.split option.split)

lemma timers_ok_countdown: "timers_ok s \<Longrightarrow> timers_ok (state_of (countdown s))"
  by (simp add: countdown_def Let_def timers_ok_endConversation)

lemma timers_ok_process_results [simp]:
  "timers_ok (process_results rs s) = timers_ok s"
  by (induction rs s rule: process_results.induct) (simp_all add: timers_ok_def)


lemma process_results_timers [simp]:
  "timers (process_results rs s) = timers s"
  "nextTimer (process_results rs s) = nextTimer s"
  "silenceTimer (process_results rs s) = silenceTimer s"
  "now (process_results rs s) = now s"
  by (induction rs s rule: process_results.induct) simp_all

lemma onresult_timers:
  "timers (recognition_onresult i rs s)
     = timers (clearTimeout (silenceTimer s) s) @ [(nextTimer s, now s + 5000, SilenceExpired)]"
  "nextTimer (recognition_onresult i rs s) = Suc (nextTimer s)"
  "silenceTimer (recognition_onresult i rs s) = Some (nextTimer s)"
  "now (recognition_onresult i rs s) = now s"
  by (simp_all add: recognition_onresult_def Let_def setTimeout_def log_def clearTimeout_def without_timer_def
        split: option.split)

lemma cleared_no_silence:
  "timers_ok s \<Longrightarrow> t \<in> set (timers (clearTimeout (silenceTimer s) s))
   \<Longrightarrow> snd (snd t) \<noteq> SilenceExpired"
  by (auto simp: timers_ok_def clearTimeout_def without_timer_def split: option.splits)

lemma timers_ok_onresult:
  assumes "timers_ok s"
  shows "timers_ok (recognition_onresult i rs s)"
proof -
  have c: "timers_ok (clearTimeout (silenceTimer s) s)"
    using assms by (rule timers_ok_clearTimeout)
  have n: "nextTimer (clearTimeout (silenceTimer s) s) = nextTimer s"
    by (simp add: clearTimeout_def without_timer_def split: option.split)
  show ?thesis
    using c n cleared_no_silence [OF assms]
    by (fastforce simp: timers_ok_def onresult_timers)
qed

lemma timers_ok_onerror: "timers_ok s \<Longrightarrow> timers_ok (recognition_onerror c s)"
  by (simp add: recognition_onerror_def Let_def timers_ok_setTimeout)

lemma timers_ok_onend: "timers_ok s \<Longrightarrow> timers_ok (recognition_onend s)"
  by (simp add: recognition_onend_def Let_def timers_ok_setTimeout)

lemma timers_ok_restart:
  "timers_ok s \<Longrightarrow> timers_ok (state_of (restart_if_listening s))"
  by (simp add: restart_if_listening_def timers_ok_startListening)

lemma timers_ok_run_callback:
  "timers_ok s \<Longrightarrow> timers_ok (state_of (run_callback cb s))"
  by (cases cb)
     (simp_all add: run_callback_def timers_ok_stopListeningAndSend timers_ok_restart
        timers_ok_speak_done timers_ok_startListening timers_ok_startConversation
        timers_ok_countdown)

lemma timers_ok_take_timer: "timers_ok s \<Longrightarrow> timers_ok (take_timer i cb s)"
proof (cases "cb = Countdown")
  case True
  assume ok: "timers_ok s"
  define f :: "timer \<Rightarrow> timer"
    where "f = (\<lambda>(j, due, c). if j = i then (j, due + 1000, c) else (j, due, c))"
  have f1: "fst (f t) = fst t" and f2: "snd (snd (f t)) = snd (snd t)" for t
    by (simp_all add: f_def split: prod.split)
  have ids: "map fst (map f (timers s)) = map fst (timers s)"
    by (simp add: f1)
  have t: "timers (take_timer i cb s) = map f (timers s)"
    and n: "nextTimer (take_timer i cb s) = nextTimer s"
    and v: "silenceTimer (take_timer i cb s) = silenceTimer s"
    using True by (simp_all add: take_timer_def f_def)
  show ?thesis
    unfolding timers_ok_def t n v ids
    using ok by (auto simp: timers_ok_def f1 f2)
next
  case False
  assume "timers_ok s"
  then show ?thesis
    using False by (simp add: take_timer_def timers_ok_clearTimeout)
qed

lemma timers_ok_clicks:
  "timers_ok s \<Longrightarrow> timers_ok (state_of (sendBtn_onclick s))"
  "timers_ok s \<Longrightarrow> timers_ok (state_of (textInput_onkeypress k s))"
  "timers_ok s \<Longrightarrow> timers_ok (state_of (restartBtn_onclick s))"
  "timers_ok s \<Longrightarrow> timers_ok (state_of (on_beforeunload s))"
  "timers_ok s \<Longrightarrow> timers_ok (state_of (on_pagehide s))"
  unfolding sendBtn_onclick_def textInput_onkeypress_def restartBtn_onclick_def
    on_beforeunload_def on_pagehide_def
  by (auto intro!: ok_and_then timers_ok_stopListeningAndSend timers_ok_sendMessage
        timers_ok_cleanupEverything simp: Let_def)

lemma timers_ok_settle: "timers_ok s \<Longrightarrow> timers_ok (state_of (settle i r s))"
  by (simp add: settle_def Let_def timers_ok_startConversation_settled
        timers_ok_sendMessage_settled timers_ok_endConversation_settled
        split: request.split)

lemma timers_ok_handle: "timers_ok s \<Longrightarrow> timers_ok (handle e s)"
  by (cases e)
     (simp_all add: handle_def deliver_def on_DOMContentLoaded_def on_voiceschanged_def
        timers_ok_startConversation timers_ok_clicks timers_ok_endConversation
        timers_ok_onresult timers_ok_onerror timers_ok_onend timers_ok_utterance
        timers_ok_run_callback timers_ok_take_timer timers_ok_settle
        split: list.split option.split prod.split)

lemma timers_ok_initial: "timers_ok (initial sr vs)"
  by (simp add: initial_def blank_def timers_ok_def loadVoices_def log_def)

lemma reachable_timers_ok: "reachable s \<Longrightarrow> timers_ok s"
  by (induction rule: reachable.induct) (simp_all add: timers_ok_initial timers_ok_handle)

lemma reachable_after: "reachable s \<Longrightarrow> run es s = Some s' \<Longrightarrow> reachable s'"
  by (induction es arbitrary: s) (auto intro: reachable.step split: if_splits)

lemma run_after: "run es s \<noteq> None \<Longrightarrow> run es s = Some (after es s)"
  by (induction es arbitrary: s) (auto split: if_splits)

lemma reachable_scenario: "run es (initial sr vs) \<noteq> None \<Longrightarrow> reachable (after es (initial sr vs))"
  using reachable_after [OF reachable.start] run_after by blast

subsection \<open>Flags that follow the recogniser\<close>

lemma sound_and_then:
  "sound (state_of r) \<Longrightarrow> (\<And>s'. sound s' \<Longrightarrow> sound (state_of (g s')))
   \<Longrightarrow> sound (state_of (and_then r g))"
  by (cases r) (simp_all add: and_then_def)

lemma sound_try_catch:
  "sound (state_of r) \<Longrightarrow> (\<And>e s'. sound s' \<Longrightarrow> sound (state_of (h e s')))
   \<Longrightarrow> sound (state_of (try_catch r h))"
  by (cases r) (simp_all add: try_catch_def)

lemma sound_neutral [simp]:
  "sound (log m s) = sound s"
  "sound (alert m s) = sound s"
  "sound (fetch r s) = sound s"
  "sound (addMessage x b s) = sound s"
  "sound (showLoading m s) = sound s"
  "sound (hideLoading s) = sound s"
  "sound (showScreen sc s) = sound s"
  "sound (synth_cancel s) = sound s"
  "sound (synth_speak u s) = sound s"
  "sound (run_done d s) = sound s"
  "sound (on_visibilitychange h s) = sound s"
  by (simp_all add: sound_def silence_deadlines_def log_def alert_def fetch_def addMessage_def
        showLoading_def hideLoading_def showScreen_def synth_cancel_def synth_speak_def
        run_done_def on_visibilitychange_def split: option.split done_cb.split)

lemma sound_update [simp]:
  "sound (s\<lparr>conversationId := a1\<rparr>) = sound s"
  "sound (s\<lparr>chat := a2\<rparr>) = sound s"
  "sound (s\<lparr>textInput := a3\<rparr>) = sound s"
  "sound (s\<lparr>turnCount := a4\<rparr>) = sound s"
  "sound (s\<lparr>location := a5\<rparr>) = sound s"
  "sound (s\<lparr>timeRemaining := a6\<rparr>) = sound s"
  "sound (s\<lparr>timerDisplay := a7\<rparr>) = sound s"
  "sound (s\<lparr>timerInterval := a8\<rparr>) = sound s"
  "sound (s\<lparr>domReady := a9\<rparr>) = sound s"
  "sound (s\<lparr>voices := a10\<rparr>) = sound s"
  "sound (s\<lparr>queue := a12\<rparr>) = sound s"
  "sound (s\<lparr>cancelled := a13\<rparr>) = sound s"
  "sound (s\<lparr>pending := a14\<rparr>) = sound s"
  "sound (s\<lparr>now := a15\<rparr>) = sound s"
  by (simp_all add: sound_def silence_deadlines_def)

lemma sound_loadVoices [simp]: "sound s \<Longrightarrow> sound (loadVoices s)"
  by (simp add: sound_def silence_deadlines_def loadVoices_def log_def Let_def)

lemma sound_setup: "sound s \<Longrightarrow> sound (setupSpeechRecognition s)"
  by (simp add: sound_def silence_deadlines_def setupSpeechRecognition_def alert_def)

lemma sound_clearTimeout: "sound s \<Longrightarrow> sound (clearTimeout h s)"
  by (fastforce simp: sound_def silence_deadlines_def clearTimeout_def without_timer_def
        filter_empty_conv split: option.splits)

lemma sound_setTimeout:
  "sound s \<Longrightarrow> cb \<noteq> SilenceExpired \<Longrightarrow> sound (setTimeout cb d s)"
  by (simp add: sound_def silence_deadlines_def setTimeout_def)

lemma sound_startListening: "sound s \<Longrightarrow> sound (state_of (startListening s))"
  by (auto simp: startListening_cases sound_def silence_deadlines_def log_def)

lemma sound_stopListening: "sound s \<Longrightarrow> sound (state_of (stopListening s))"
  by (fastforce simp: stopListening_cases sound_def silence_deadlines_def clearTimeout_def
        without_timer_def filter_empty_conv split: option.splits)

lemma sound_sendMessage: "sound s \<Longrightarrow> sound (state_of (sendMessage m s))"
  by (simp add: sendMessage_def Let_def)

lemma sound_speak: "sound s \<Longrightarrow> sound (state_of (speak x d s))"
  unfolding speak_def
  by (auto intro!: sound_and_then sound_stopListening simp: Let_def)

lemma sound_speak_done: "sound s \<Longrightarrow> sound (state_of (speak_done d s))"
  unfolding speak_done_def
  by (auto intro!: sound_and_then sound_startListening)

lemma sound_utterance:
  "sound s \<Longrightarrow> sound (utterance_onend u s)"
  "sound s \<Longrightarrow> sound (utterance_onerror u s)"
  by (simp_all add: utterance_onend_def utterance_onerror_def sound_setTimeout)

lemma sound_sendMessage_failed:
  "sound s \<Longrightarrow> sound (state_of (sendMessage_failed s))"
  by (simp add: sendMessage_failed_def sound_setTimeout)

lemma sound_sendMessage_settled:
  "sound s \<Longrightarrow> sound (state_of (sendMessage_settled r s))"
  unfolding sendMessage_settled_def
  by (auto intro!: sound_try_catch sound_speak sound_sendMessage_failed
        simp: Let_def split: fetch_result.split option.split)

lemma sound_stopListeningAndSend:
  "sound s \<Longrightarrow> sound (state_of (stopListeningAndSend s))"
  unfolding stopListeningAndSend_def
  by (auto intro!: sound_and_then sound_stopListening sound_sendMessage
        sound_setTimeout simp: Let_def)

lemma sound_stopTimer: "sound s \<Longrightarrow> sound (stopTimer s)"
  by (simp add: stopTimer_def sound_clearTimeout)

lemma sound_startTimer: "sound s \<Longrightarrow> sound (startTimer s)"
  by (simp add: startTimer_def sound_setTimeout)

lemma sound_cleanupEverything:
  "sound s \<Longrightarrow> sound (state_of (cleanupEverything s))"
  unfolding cleanupEverything_def
  by (auto intro!: sound_and_then sound_stopListening sound_stopTimer
        sound_clearTimeout simp: Let_def)

lemma sound_endConversation_failed:
  "sound s \<Longrightarrow> sound (state_of (endConversation_failed s))"
  by (simp add: endConversation_failed_def)

lemma sound_endConversation:
  "sound s \<Longrightarrow> sound (state_of (endConversation s))"
  unfolding endConversation_def
  by (auto intro!: sound_and_then sound_stopListening sound_stopTimer simp: Let_def)

lemma sound_endConversation_settled:
  "sound s \<Longrightarrow> sound (state_of (endConversation_settled r s))"
  unfolding endConversation_settled_def
  by (auto intro!: sound_try_catch sound_and_then sound_cleanupEverything
        sound_endConversation_failed split: fetch_result.split option.split)

lemma sound_startConversation_failed:
  "sound s \<Longrightarrow> sound (state_of (startConversation_failed s))"
  by (simp add: startConversation_failed_def)

lemma sound_startConversation_wait:
  "sound s \<Longrightarrow> sound (state_of (startConversation_wait n s))"
  by (simp add: startConversation_wait_def sound_setTimeout Let_def)

lemma sound_startConversation:
  "sound s \<Longrightarrow> sound (state_of (startConversation s))"
  "sound s \<Longrightarrow> sound (state_of (startConversation_resumed n s))"
  unfolding startConversation_def startConversation_resumed_def
  by (auto intro!: sound_try_catch sound_startConversation_wait
        sound_startConversation_failed)

lemma sound_startConversation_settled:
  "sound s \<Longrightarrow> sound (state_of (startConversation_settled r s))"
  unfolding startConversation_settled_def
  by (auto intro!: sound_try_catch sound_and_then sound_speak sound_startTimer
        sound_startConversation_failed simp: Let_def
        split: fetch_result.split option.split)

lemma sound_countdown: "sound s \<Longrightarrow> sound (state_of (countdown s))"
  by (simp add: countdown_def Let_def sound_endConversation)

lemma sound_onerror: "sound s \<Longrightarrow> sound (recognition_onerror c s)"
  by (simp add: recognition_onerror_def Let_def sound_setTimeout)

lemma sound_onend: "sound s \<Longrightarrow> sound (recognition_onend s)"
  by (simp add: recognition_onend_def Let_def sound_setTimeout)

lemma sound_restart:
  "sound s \<Longrightarrow> sound (state_of (restart_if_listening s))"
  by (simp add: restart_if_listening_def sound_startListening)

lemma sound_run_callback:
  "sound s \<Longrightarrow> sound (state_of (run_callback cb s))"
  by (cases cb)
     (simp_all add: run_callback_def sound_stopListeningAndSend sound_restart
        sound_speak_done sound_startListening sound_startConversation
        sound_countdown)

lemma sound_clicks:
  "sound s \<Longrightarrow> sound (state_of (sendBtn_onclick s))"
  "sound s \<Longrightarrow> sound (state_of (textInput_onkeypress k s))"
  "sound s \<Longrightarrow> sound (state_of (restartBtn_onclick s))"
  "sound s \<Longrightarrow> sound (state_of (on_beforeunload s))"
  "sound s \<Longrightarrow> sound (state_of (on_pagehide s))"
  unfolding sendBtn_onclick_def textInput_onkeypress_def restartBtn_onclick_def
    on_beforeunload_def on_pagehide_def
  by (auto intro!: sound_and_then sound_stopListeningAndSend sound_sendMessage
        sound_cleanupEverything simp: Let_def)

lemma sound_settle: "sound s \<Longrightarrow> sound (state_of (settle i r s))"
  by (simp add: settle_def Let_def sound_startConversation_settled
        sound_sendMessage_settled sound_endConversation_settled
        split: request.split)

lemma process_results_flags [simp]:
  "voicesReady (process_results rs s) = voicesReady s"
  "engine (process_results rs s) = engine s"
  "recognition (process_results rs s) = recognition s"
  "isListening (process_results rs s) = isListening s"
  by (induction rs s rule: process_results.induct) simp_all

lemma sound_onresult:
  "sound s \<Longrightarrow> engine s \<noteq> Idle \<Longrightarrow> sound (recognition_onresult i rs s)"
  by (simp add: sound_def silence_deadlines_def recognition_onresult_def Let_def setTimeout_def
        log_def clearTimeout_def)

lemma sound_take_timer:
  assumes "sound s"
  shows "sound (take_timer i cb s)"
proof (cases "cb = Countdown")
  case True
  define f :: "timer \<Rightarrow> timer"
    where "f = (\<lambda>(j, due, c). if j = i then (j, due + 1000, c) else (j, due, c))"
  have f2: "snd (snd (f t)) = snd (snd t)" for t
    by (simp add: f_def split: prod.split)
  have "silence_deadlines (take_timer i cb s) = [] \<longleftrightarrow> silence_deadlines s = []"
    using True by (simp add: take_timer_def silence_deadlines_def filter_empty_conv
          f_def [symmetric] f2)
  then show ?thesis
    using assms True by (simp add: sound_def take_timer_def)
next
  case False
  then show ?thesis
    using assms by (simp add: take_timer_def sound_clearTimeout)
qed

lemma sound_onstart:
  "sound s \<Longrightarrow> engine s = Starting \<Longrightarrow> sound (recognition_onstart (s\<lparr>engine := Running\<rparr>))"
  by (simp add: sound_def silence_deadlines_def recognition_onstart_def log_def)

lemma sound_ended: "sound s \<Longrightarrow> sound (recognition_onend (s\<lparr>engine := Idle\<rparr>))"
  by (simp add: sound_def silence_deadlines_def recognition_onend_def log_def setTimeout_def
        Let_def)

lemma sound_handle: "sound s \<Longrightarrow> enabled e s \<Longrightarrow> sound (handle e s)"
  by (cases e)
     (auto simp: handle_def deliver_def enabled_def on_DOMContentLoaded_def on_voiceschanged_def
        sound_setup sound_onstart sound_ended
        sound_startConversation sound_clicks sound_endConversation
        sound_onresult sound_onerror sound_onend sound_utterance
        sound_run_callback sound_take_timer sound_settle
        split: list.split option.split prod.split)

lemma sound_initial: "sound (initial sr vs)"
  by (simp add: initial_def blank_def sound_def silence_deadlines_def loadVoices_def log_def
        Let_def)

lemma reachable_sound: "reachable s \<Longrightarrow> sound s"
  by (induction rule: reachable.induct) (simp_all add: sound_initial sound_handle)

subsection \<open>A timer that no handler names stays pending\<close>



lemma kept_neutral [simp]:
  "kept k xs (log m s) = kept k xs s"
  "kept k xs (alert m s) = kept k xs s"
  "kept k xs (fetch r s) = kept k xs s"
  "kept k xs (addMessage x b s) = kept k xs s"
  "kept k xs (showLoading m s) = kept k xs s"
  "kept k xs (hideLoading s) = kept k xs s"
  "kept k xs (showScreen sc s) = kept k xs s"
  "kept k xs (synth_cancel s) = kept k xs s"
  "kept k xs (synth_speak u s) = kept k xs s"
  "kept k xs (loadVoices s) = kept k xs s"
  "kept k xs (run_done d s) = kept k xs s"
  "kept k xs (recognition_onstart s) = kept k xs s"
  "kept k xs (setupSpeechRecognition s) = kept k xs s"
  "kept k xs (on_visibilitychange h s) = kept k xs s"
  by (simp_all add: kept_def log_def alert_def fetch_def addMessage_def showLoading_def
        hideLoading_def showScreen_def synth_cancel_def synth_speak_def loadVoices_def
        run_done_def recognition_onstart_def setupSpeechRecognition_def
        on_visibilitychange_def Let_def split: option.split done_cb.split)

lemma kept_update [simp]:
  "kept k xs (s\<lparr>conversationId := a1\<rparr>) = kept k xs s"
  "kept k xs (s\<lparr>chat := a2\<rparr>) = kept k xs s"
  "kept k xs (s\<lparr>textInput := a3\<rparr>) = kept k xs s"
  "kept k xs (s\<lparr>turnCount := a4\<rparr>) = kept k xs s"
  "kept k xs (s\<lparr>location := a5\<rparr>) = kept k xs s"
  "kept k xs (s\<lparr>timeRemaining := a6\<rparr>) = kept k xs s"
  "kept k xs (s\<lparr>timerDisplay := a7\<rparr>) = kept k xs s"
  "kept k xs (s\<lparr>domReady := a9\<rparr>) = kept k xs s"
  "kept k xs (s\<lparr>voices := a10\<rparr>) = kept k xs s"
  "kept k xs (s\<lparr>engine := a11\<rparr>) = kept k xs s"
  "kept k xs (s\<lparr>queue := a12\<rparr>) = kept k xs s"
  "kept k xs (s\<lparr>cancelled := a13\<rparr>) = kept k xs s"
  "kept k xs (s\<lparr>pending := a14\<rparr>) = kept k xs s"
  "kept k xs (s\<lparr>now := a15\<rparr>) = kept k xs s"
  by (simp_all add: kept_def)


lemma filter_other:
  "i \<noteq> k \<Longrightarrow> filter (\<lambda>t. fst t = k) (filter (\<lambda>t. fst t \<noteq> i) ts) = filter (\<lambda>t. fst t = k) ts"
  by (induction ts) auto































lemma onresult_timerInterval [simp]:
  "timerInterval (recognition_onresult i rs s) = timerInterval s"
proof -
  have "timerInterval (process_results xs t) = timerInterval t" for xs t
    by (induction xs t rule: process_results.induct) simp_all
  then show ?thesis
    by (simp add: recognition_onresult_def Let_def setTimeout_def log_def clearTimeout_def)
qed









subsection \<open>The silence deadline\<close>

lemma handle_simps:
  "handle (RecResult i rs) s = recognition_onresult i rs s"
  "handle (Elapse d) s = s\<lparr>now := now s + d\<rparr>"
  by (simp_all add: handle_def deliver_def)

lemma cleared_deadlines:
  "timers_ok s \<Longrightarrow> silence_deadlines (clearTimeout (silenceTimer s) s) = []"
  using cleared_no_silence [of s]
  by (simp add: silence_deadlines_def filter_empty_conv)

lemma onresult_deadline:
  "timers_ok s \<Longrightarrow> silence_deadlines (recognition_onresult i rs s) = [now s + 5000]"
  using cleared_no_silence [of s]
  by (simp add: silence_deadlines_def onresult_timers filter_empty_conv)

lemma progress_deadline:
  "timers_ok s \<Longrightarrow> es \<noteq> [] \<Longrightarrow>
   silence_deadlines (progress es s) = [now (progress es s) + 5000]"
proof (induction es arbitrary: s)
  case Nil
  then show ?case by simp
next
  case (Cons e es)
  obtain d i rs where e: "e = (d, i, rs)"
    by (cases e) auto
  let ?s = "handle (RecResult i rs) (handle (Elapse d) s)"
  have ok: "timers_ok ?s"
    using Cons.prems(1) by (simp add: timers_ok_handle)
  show ?case
  proof (cases "es = []")
    case True
    have "timers_ok (handle (Elapse d) s)"
      using Cons.prems(1) by (simp add: timers_ok_handle)
    then show ?thesis
      using True e by (simp add: handle_simps(1) onresult_deadline onresult_timers)
  next
    case False
    then show ?thesis
      using Cons.IH [OF ok] e by simp
  qed
qed

lemma deadlines_neutral [simp]:
  "silence_deadlines (log m s) = silence_deadlines s"
  "silence_deadlines (fetch r s) = silence_deadlines s"
  "silence_deadlines (addMessage x b s) = silence_deadlines s"
  "silence_deadlines (s\<lparr>textInput := a\<rparr>) = silence_deadlines s"
  by (simp_all add: silence_deadlines_def log_def fetch_def addMessage_def)

lemma deadlines_setTimeout:
  "cb \<noteq> SilenceExpired \<Longrightarrow> silence_deadlines (setTimeout cb d s) = silence_deadlines s"
  by (simp add: silence_deadlines_def setTimeout_def)

lemma deadlines_clear:
  "silence_deadlines s = [] \<Longrightarrow> silence_deadlines (clearTimeout h s) = []"
  by (auto simp: silence_deadlines_def clearTimeout_def without_timer_def filter_empty_conv split: option.split)

lemma deadlines_stopListening:
  "silence_deadlines s = [] \<Longrightarrow> silence_deadlines (state_of (stopListening s)) = []"
  by (auto simp: stopListening_cases silence_deadlines_def clearTimeout_def without_timer_def filter_empty_conv
        split: option.split)

lemma deadlines_sendMessage:
  "silence_deadlines (state_of (sendMessage m s)) = silence_deadlines s"
  by (simp add: sendMessage_def Let_def)

lemma deadlines_stopListeningAndSend:
  assumes "silence_deadlines s = []"
  shows "silence_deadlines (state_of (stopListeningAndSend s)) = []"
proof -
  obtain s1 where s1: "stopListening s = Returns s1"
    by (simp add: stopListening_cases)
  with deadlines_stopListening [OF assms] have "silence_deadlines s1 = []"
    by simp
  then show ?thesis
    by (simp add: stopListeningAndSend_def Let_def and_then_def s1 deadlines_sendMessage
        deadlines_setTimeout)
qed

lemma fired_deadline:
  assumes "timers_ok s" and "lookup_timer j s = Some (j, due, SilenceExpired)"
  shows "silence_deadlines (handle (TimerFire j) s) = []"
proof -
  have "(j, due, SilenceExpired) \<in> set (timers s)"
    using assms(2) by (auto simp: lookup_timer_def find_Some_iff in_set_conv_nth)
  then have "silenceTimer s = Some j"
    using assms(1) by (fastforce simp: timers_ok_def)
  then have "silence_deadlines (take_timer j SilenceExpired s) = []"
    using cleared_deadlines [OF assms(1)] by (simp add: take_timer_def)
  then have "silence_deadlines (log ''5 seconds of silence detected''
               (take_timer j SilenceExpired s)) = []"
    by simp
  then show ?thesis
    using assms(2)
    by (simp add: handle_def deliver_def run_callback_def deadlines_stopListeningAndSend)
qed


lemma find_append_skip: "\<forall>t \<in> set xs. \<not> P t \<Longrightarrow> List.find P (xs @ ys) = List.find P ys"
  by (induction xs) simp_all

lemma onresult_lookup:
  assumes "timers_ok s"
  shows "lookup_timer (nextTimer s) (recognition_onresult i rs s)
           = Some (nextTimer s, now s + 5000, SilenceExpired)"
proof -
  have "\<forall>t \<in> set (timers (clearTimeout (silenceTimer s) s)). \<not> fst t = nextTimer s"
    using assms by (auto simp: timers_ok_def clearTimeout_def without_timer_def split: option.splits)
  then show ?thesis
    by (simp add: lookup_timer_def onresult_timers find_append_skip)
qed

lemma at_most_one_deadline:
  assumes "timers_ok s"
  shows "length (silence_deadlines s) \<le> 1"
proof -
  let ?ids = "map fst (filter (\<lambda>t. snd (snd t) = SilenceExpired) (timers s))"
  have d: "distinct ?ids"
    using assms by (simp add: timers_ok_def distinct_map_filter)
  have "set ?ids \<subseteq> {i. silenceTimer s = Some i}"
    using assms by (auto simp: timers_ok_def)
  also have "\<dots> \<subseteq> {the (silenceTimer s)}"
    by auto
  finally have "card (set ?ids) \<le> card {the (silenceTimer s)}"
    by (intro card_mono) simp_all
  moreover have "card (set ?ids) = length ?ids"
    using d by (rule distinct_card)
  ultimately have "length ?ids \<le> 1"
    by simp
  then show ?thesis
    by (simp add: silence_deadlines_def)
qed

text \<open>
  C2. In every reachable state, a result event cancels the pending silence timeout and
  schedules one due 5000 ms after the event, so that after any run of result events the
  only silence timeout pending is due 5000 ms after the last of them; it cannot be
  delivered earlier; once delivered, or once \<open>clearTimeout(silenceTimer)\<close> has run,
  none is pending; and at no moment is more than one pending.
\<close>

theorem silence_deadline_follows_last_progress:
  assumes "reachable s"
  shows "silence_deadlines (handle (RecResult i rs) s) = [now s + 5000] \<and>
         (es \<noteq> [] \<longrightarrow> silence_deadlines (progress es s) = [now (progress es s) + 5000]) \<and>
         (enabled (TimerFire (nextTimer s)) (handle (Elapse d) (handle (RecResult i rs) s))
            \<longrightarrow> 5000 \<le> d) \<and>
         (lookup_timer j s = Some (j, due, SilenceExpired)
            \<longrightarrow> silence_deadlines (handle (TimerFire j) s) = []) \<and>
         silence_deadlines (clearTimeout (silenceTimer s) s) = [] \<and>
         length (silence_deadlines s) \<le> 1"
proof -
  have ok: "timers_ok s"
    using assms by (rule reachable_timers_ok)
  have a: "silence_deadlines (handle (RecResult i rs) s) = [now s + 5000]"
    using ok by (simp add: handle_simps onresult_deadline)
  have b: "es \<noteq> [] \<longrightarrow> silence_deadlines (progress es s) = [now (progress es s) + 5000]"
    using ok by (simp add: progress_deadline)
  have "lookup_timer (nextTimer s) (handle (Elapse d) (handle (RecResult i rs) s))
          = Some (nextTimer s, now s + 5000, SilenceExpired)"
    using onresult_lookup [OF ok, of i rs] by (simp add: handle_simps lookup_timer_def)
  then have c: "enabled (TimerFire (nextTimer s)) (handle (Elapse d) (handle (RecResult i rs) s))
                  \<longrightarrow> 5000 \<le> d"
    by (simp add: enabled_def handle_simps onresult_timers)
  have d: "lookup_timer j s = Some (j, due, SilenceExpired)
             \<longrightarrow> silence_deadlines (handle (TimerFire j) s) = []"
    using ok by (simp add: fired_deadline)
  show ?thesis
    using a b c d cleared_deadlines [OF ok] at_most_one_deadline [OF ok] by blast
qed

theorem silence_deadline_follows_last_progress_witness:
  "reachable listening \<and> two_updates \<noteq> [] \<and>
   silence_deadlines (progress two_updates listening)
     = [now (progress two_updates listening) + 5000] \<and>
   now (progress two_updates listening) = 1300"
proof -
  have "run to_listening (initial True []) \<noteq> None"
    by (simp add: model_defs Let_def)
  then have r: "reachable listening"
    unfolding listening_def by (rule reachable_scenario)
  have n: "two_updates \<noteq> []"
    by (simp add: two_updates_def)
  have t: "now (progress two_updates listening) = 1300"
    by (simp add: model_defs Let_def)
  from silence_deadline_follows_last_progress [OF r, of _ _ two_updates] r n t
  show ?thesis
    by blast
qed

subsection \<open>Starting the recogniser\<close>

text \<open>
  C10. \<open>startListening\<close> never throws. It returns the state unchanged when there is no
  recogniser or \<open>isListening\<close> is set. When the recogniser has already been started,
  \<open>recognition.start()\<close> raises, and the \<open>catch\<close> of line 215 turns the exception into
  a console message. The two restart timeouts (100 ms after \<open>onend\<close>, 1000 ms after
  \<open>onerror\<close>) therefore return normally in every state.
\<close>

theorem startListening_never_throws:
  "(\<exists>s'. startListening s = Returns s') \<and>
   (\<not> recognition s \<or> isListening s \<longrightarrow> startListening s = Returns s) \<and>
   (recognition s \<and> \<not> isListening s \<and> engine s \<noteq> Idle \<longrightarrow>
      recognition_start (s\<lparr>finalTranscript := [], interimTranscript := []\<rparr>)
        = Throws InvalidStateError (s\<lparr>finalTranscript := [], interimTranscript := []\<rparr>) \<and>
      startListening s
        = Returns (log ''Error starting recognition:''
                     (s\<lparr>finalTranscript := [], interimTranscript := []\<rparr>))) \<and>
   (\<exists>s'. run_callback EndRestart s = Returns s') \<and>
   (\<exists>s'. run_callback ErrorRestart s = Returns s')"
  by (simp add: startListening_cases run_callback_def restart_if_listening_def
        recognition_start_def)

theorem startListening_never_throws_witness:
  "run to_mic_starting (initial True []) \<noteq> None \<and>
   recognition mic_starting \<and> \<not> isListening mic_starting \<and> engine mic_starting \<noteq> Idle \<and>
   startListening mic_starting
     = Returns (log ''Error starting recognition:''
                  (mic_starting\<lparr>finalTranscript := [], interimTranscript := []\<rparr>))"
proof -
  have r: "run to_mic_starting (initial True []) \<noteq> None"
    by (simp add: model_defs Let_def)
  have h: "recognition mic_starting \<and> \<not> isListening mic_starting
           \<and> engine mic_starting \<noteq> Idle"
    by (simp add: model_defs Let_def)
  with r startListening_never_throws [of mic_starting] show ?thesis
    by blast
qed

subsection \<open>The restart after a recogniser error\<close>

lemma find_fresh:
  "timers_ok s \<Longrightarrow>
   List.find (\<lambda>t. fst t = nextTimer s) (timers s @ [(nextTimer s, d, cb)])
     = Some (nextTimer s, d, cb)"
  by (subst find_append_skip) (auto simp: timers_ok_def)

lemma find_stale:
  "timers_ok s \<Longrightarrow> List.find (\<lambda>t. fst t = nextTimer s) (timers s) = None"
  by (auto simp: timers_ok_def find_None_iff)

lemma restart_is_no_op: "run_callback ErrorRestart s = Returns s"
  by (simp add: run_callback_def restart_if_listening_def startListening_cases)

lemma stopped_fields:
  "recognition s \<Longrightarrow> \<not> isListening (state_of (stopListening s))"
  "recognition s \<Longrightarrow>
   engine (state_of (stopListening s)) = (if engine s = Idle then Idle else Stopping)"
  "nextTimer (state_of (stopListening s)) = nextTimer s"
  "now (state_of (stopListening s)) = now s"
  "recognition (state_of (stopListening s)) = recognition s"
  by (simp_all add: stopListening_cases clearTimeout_def)

lemma onerror_fields:
  "isListening (recognition_onerror c s) = isListening s"
  "engine (recognition_onerror c s) = engine s"
  "recognition (recognition_onerror c s) = recognition s"
  "finalTranscript (recognition_onerror c s) = finalTranscript s"
  "now (recognition_onerror c s) = now s"
  "timers (recognition_onerror c s)
     = (if c \<noteq> ''no-speech'' \<and> c \<noteq> ''aborted''
        then timers s @ [(nextTimer s, now s + 1000, ErrorRestart)] else timers s)"
  by (simp_all add: recognition_onerror_def Let_def log_def setTimeout_def)

text \<open>
  C5. Let \<open>stopListening\<close> run in a reachable state with a recogniser, and let the
  recogniser then report an error. For an error other than \<open>no-speech\<close> and
  \<open>aborted\<close> the restart is a timeout due 1000 ms later. When it is delivered,
  \<open>isListening\<close> is still false, so line 114 skips \<open>startListening\<close>: the recogniser is
  not started and the transcript is not reset. (In fact the timeout changes nothing in
  any state: where line 114 lets \<open>startListening\<close> run, line 209 returns at once.)
\<close>

theorem error_restart_after_stop:
  assumes "reachable s" and "recognition s"
  shows "(let s1 = state_of (stopListening s);
              s2 = handle (RecError err) s1;
              s3 = handle (Elapse 1000) s2;
              s4 = handle (TimerFire (nextTimer s1)) s3
          in (err \<noteq> ''no-speech'' \<and> err \<noteq> ''aborted'' \<longrightarrow>
                lookup_timer (nextTimer s1) s3
                  = Some (nextTimer s1, now s1 + 1000, ErrorRestart)) \<and>
             \<not> isListening s4 \<and> engine s4 = engine s1 \<and> engine s4 \<noteq> Starting \<and>
             engine s4 \<noteq> Running \<and> finalTranscript s4 = finalTranscript s1) \<and>
         (\<forall>t. run_callback ErrorRestart t = Returns t)"
proof -
  define s1 where "s1 = state_of (stopListening s)"
  define s2 where "s2 = handle (RecError err) s1"
  define s3 where "s3 = handle (Elapse 1000) s2"
  define s4 where "s4 = handle (TimerFire (nextTimer s1)) s3"
  have "timers_ok s"
    using assms(1) by (rule reachable_timers_ok)
  then have ok1: "timers_ok s1"
    unfolding s1_def by (rule timers_ok_stopListening)
  have f1: "\<not> isListening s1" "engine s1 \<noteq> Starting" "engine s1 \<noteq> Running"
    using assms(2) by (simp_all add: s1_def stopped_fields)
  have s2: "s2 = recognition_onerror err s1"
    by (simp add: s2_def handle_def deliver_def)
  have s3: "s3 = s2\<lparr>now := now s2 + 1000\<rparr>"
    by (simp add: s3_def handle_simps)
  have keep: "isListening s3 = isListening s1" "engine s3 = engine s1"
    "finalTranscript s3 = finalTranscript s1"
    by (simp_all add: s3 s2 onerror_fields)
  have look: "lookup_timer (nextTimer s1) s3 = Some (nextTimer s1, now s1 + 1000, ErrorRestart)"
    if "err \<noteq> ''no-speech'' \<and> err \<noteq> ''aborted''"
    using that find_fresh [OF ok1] by (simp add: lookup_timer_def s3 s2 onerror_fields)
  have none: "lookup_timer (nextTimer s1) s3 = None"
    if "\<not> (err \<noteq> ''no-speech'' \<and> err \<noteq> ''aborted'')"
    using that find_stale [OF ok1] by (auto simp: lookup_timer_def s3 s2 onerror_fields)
  have fired: "isListening s4 = isListening s3 \<and> engine s4 = engine s3 \<and>
               finalTranscript s4 = finalTranscript s3"
  proof (cases "err \<noteq> ''no-speech'' \<and> err \<noteq> ''aborted''")
    case True
    then show ?thesis
      by (simp add: s4_def handle_def deliver_def look restart_is_no_op take_timer_def
            clearTimeout_def)
  next
    case False
    then show ?thesis
      by (simp add: s4_def handle_def deliver_def none)
  qed
  show ?thesis
    unfolding Let_def s1_def [symmetric] s2_def [symmetric] s3_def [symmetric]
      s4_def [symmetric]
    using keep fired look f1 by (simp add: restart_is_no_op)
qed

theorem error_restart_after_stop_witness:
  "reachable listening \<and> recognition listening \<and>
   ((let s1 = state_of (stopListening listening);
         s2 = handle (RecError ''network'') s1;
         s3 = handle (Elapse 1000) s2;
         s4 = handle (TimerFire (nextTimer s1)) s3
     in (''network'' \<noteq> ''no-speech'' \<and> ''network'' \<noteq> ''aborted'' \<longrightarrow>
           lookup_timer (nextTimer s1) s3
             = Some (nextTimer s1, now s1 + 1000, ErrorRestart)) \<and>
        \<not> isListening s4 \<and> engine s4 = engine s1 \<and> engine s4 \<noteq> Starting \<and>
        engine s4 \<noteq> Running \<and> finalTranscript s4 = finalTranscript s1) \<and>
    (\<forall>t. run_callback ErrorRestart t = Returns t))"
proof -
  have "run to_listening (initial True []) \<noteq> None"
    by (simp add: model_defs Let_def)
  then have r: "reachable listening"
    unfolding listening_def by (rule reachable_scenario)
  have h: "recognition listening"
    by (simp add: model_defs Let_def)
  show ?thesis
    by (rule conjI [OF r conjI [OF h error_restart_after_stop [OF r h]]])
qed

subsection \<open>Ending the conversation\<close>

lemma without_timer_idem [simp]: "without_timer h (without_timer h ts) = without_timer h ts"
  by (simp add: without_timer_def split: option.split)

lemma without_timer_twice [simp]:
  "without_timer h (without_timer k (without_timer h (without_timer k ts)))
     = without_timer h (without_timer k ts)"
  by (simp add: without_timer_def conj_commute split: option.split)

lemma ended_cases:
  "ended s =
     (if recognition s
      then s\<lparr>isListening := False,
             timers := without_timer (silenceTimer s) (without_timer (timerInterval s) (timers s)),
             engine := (if engine s = Idle then Idle else Stopping),
             voiceIndicator := False, micLabel := MicSpeaking, micRecording := False,
             queue := [], cancelled := cancelled s @ queue s,
             loadingText := ''Analyzing your conversation...'', loadingActive := True,
             requests := requests s @ [EndReq (conversationId s)],
             pending := pending s @ [length (requests s)]\<rparr>
      else s\<lparr>timers := without_timer (timerInterval s) (timers s),
             queue := [], cancelled := cancelled s @ queue s,
             loadingText := ''Analyzing your conversation...'', loadingActive := True,
             requests := requests s @ [EndReq (conversationId s)],
             pending := pending s @ [length (requests s)]\<rparr>)"
  by (simp add: ended_def endConversation_def async_def and_then_def stopListening_cases Let_def
        showLoading_def synth_cancel_def fetch_def stopTimer_def clearTimeout_def)

text \<open>
  C4, as the code has it. \<open>endConversation\<close> has no guard: every call sends one
  \<open>/end_conversation\<close> request. Called twice in succession, the second call leaves the
  state of the first as it is, but for the second request it sends.
\<close>

theorem endConversation_twice:
  "requests (ended s) = requests s @ [EndReq (conversationId s)] \<and>
   ended (ended s)
     = (ended s)\<lparr>requests := requests (ended s) @ [EndReq (conversationId s)],
                 pending := pending (ended s) @ [length (requests (ended s))]\<rparr>"
  by (simp add: ended_cases)

theorem endConversation_twice_witness:
  "requests (ended (ended listening))
     = requests listening @ [EndReq (Some ''c1''), EndReq (Some ''c1'')]"
proof -
  have c: "conversationId listening = Some ''c1''"
    by (simp add: model_defs Let_def)
  have "requests (ended (ended listening))
          = requests (ended listening) @ [EndReq (conversationId listening)]"
    by (subst conjunct2 [OF endConversation_twice]) simp
  then show ?thesis
    using conjunct1 [OF endConversation_twice, of listening] c by simp
qed

text \<open>
  The claim as stated fails: the user clicks the end button twice while listening, and
  two \<open>/end_conversation\<close> requests are sent.
\<close>

theorem second_end_sends_second_request:
  "case run double_end (initial True []) of
     None \<Rightarrow> False
   | Some s \<Rightarrow> requests s = [StartReq, EndReq (Some ''c1''), EndReq (Some ''c1'')]"
  by (simp add: model_defs Let_def)

subsection \<open>Starting the conversation\<close>

text \<open>
  C8, as the code has it. \<open>startConversation\<close> has no guard on the state: in every state
  it returns normally, shows the loading overlay and, the voices being ready, sends a
  \<open>/start_conversation\<close> request; while they are not ready it schedules the 50 ms poll
  of line 304 instead. In a reachable state the voices are ready (line 165), so every call
  sends a request.
\<close>

theorem startConversation_unguarded:
  "(\<exists>s'. startConversation s = Returns s') \<and>
   requests (state_of (startConversation s))
     = (if voicesReady s then requests s @ [StartReq] else requests s) \<and>
   timers (state_of (startConversation s))
     = (if voicesReady s then timers s
        else timers s @ [(nextTimer s, now s + 50, VoicePoll 1)]) \<and>
   loadingActive (state_of (startConversation s)) \<and>
   (reachable s \<longrightarrow> requests (state_of (startConversation s)) = requests s @ [StartReq])"
proof -
  have "reachable s \<longrightarrow> voicesReady s"
    using reachable_sound [of s] by (simp add: sound_def)
  then show ?thesis
    by (simp add: startConversation_def startConversation_wait_def async_def try_catch_def
          showLoading_def fetch_def setTimeout_def)
qed

theorem startConversation_unguarded_witness:
  "reachable listening \<and>
   requests (state_of (startConversation listening)) = requests listening @ [StartReq]"
proof -
  have "run to_listening (initial True []) \<noteq> None"
    by (simp add: model_defs Let_def)
  then have "reachable listening"
    unfolding listening_def by (rule reachable_scenario)
  with startConversation_unguarded [of listening] show ?thesis
    by blast
qed

text \<open>
  The claim as stated fails: a second click on the start button before the first request
  has settled sends a second request.
\<close>

theorem second_start_sends_second_request:
  "case run double_start (initial True []) of
     None \<Rightarrow> False
   | Some s \<Rightarrow> requests s = [StartReq, StartReq] \<and> pending s = [0, 1]"
  by (simp add: model_defs Let_def)

subsection \<open>A failed request\<close>

text \<open>
  When the \<open>/send_message\<close> request is rejected, or its body is not JSON, the \<open>catch\<close>
  of line 353 writes to the console and schedules \<open>startListening\<close> 1000 ms later.
  Nothing the user can see changes: no alert, no message in the chat. No utterance is
  queued and no request is sent.
\<close>

lemma send_failure_is_silent:
  assumes "r = Rejected \<or> r = Responded ok None"
  shows "let s' = state_of (sendMessage_settled r s)
         in page s' = page s \<and>
            console s' = console s @ [''Error sending message:''] \<and>
            queue s' = queue s \<and> cancelled s' = cancelled s \<and>
            requests s' = requests s \<and>
            timers s' = timers s @ [(nextTimer s, now s + 1000, ResumeAfterFailure)] \<and>
            run_callback ResumeAfterFailure s' = startListening s'"
  using assms
  by (auto simp: sendMessage_settled_def sendMessage_failed_def async_def page_def
        setTimeout_def log_def run_callback_def Let_def)

text \<open>
  C7. Three runs in which the \<open>/send_message\<close> call fails. In the first the request is
  rejected: no alert is raised and the chat shows the greeting and the user's message
  only, unlike the \<open>catch\<close> blocks of lines 330 and 386, which alert. In the second the
  service answers with an error status and a JSON body: line 347 does not test \<open>res.ok\<close>
  as line 310 does, so an empty reply is added to the chat, \<open>speak\<close> returns at line 168,
  and nothing is left that would start the recogniser again. In the third the request is
  rejected and the timeout of line 356 comes before the recogniser has reported its end:
  \<open>recognition.start()\<close> raises, line 215 swallows it, and the page is not listening, with
  no timer pending but the countdown. No utterance is queued in any of them.
\<close>

theorem send_failure_unnoticed_and_stuck:
  "(case run to_send_failure (initial True []) of
      None \<Rightarrow> False
    | Some s \<Rightarrow> requests s = [StartReq, SendReq (Some ''c1'') ''hello''] \<and>
        alerts s = [] \<and> chat s = [(Some ''Hi'', False), (Some ''hello'', True)] \<and>
        \<not> loadingActive s \<and> queue s = []) \<and>
   (case run to_http_error (initial True []) of
      None \<Rightarrow> False
    | Some s \<Rightarrow> requests s = [StartReq, SendReq (Some ''c1'') ''hello''] \<and> pending s = [] \<and>
        alerts s = [] \<and>
        chat s = [(Some ''Hi'', False), (Some ''hello'', True), (None, False)] \<and>
        \<not> isListening s \<and> engine s = Idle \<and> queue s = [] \<and> cancelled s = [] \<and>
        timers s = [(1, 1000, Countdown)]) \<and>
   (case run to_deaf_after_failure (initial True []) of
      None \<Rightarrow> False
    | Some s \<Rightarrow> requests s = [StartReq, SendReq (Some ''c1'') ''hello''] \<and> pending s = [] \<and>
        alerts s = [] \<and> \<not> isListening s \<and> engine s = Idle \<and> queue s = [] \<and>
        cancelled s = [] \<and> timers s = [(1, 1000, Countdown)])"
  by (simp add: model_defs Let_def)

subsection \<open>The transcript buffers\<close>






subsection \<open>Silence with nothing said\<close>

lemma lookup_in_timers:
  "lookup_timer j s = Some (j, due, cb) \<Longrightarrow> (j, due, cb) \<in> set (timers s)"
  by (auto simp: lookup_timer_def find_Some_iff in_set_conv_nth)

lemma after_append: "after (xs @ ys) s = after ys (after xs s)"
  by (induction xs arbitrary: s) simp_all

lemma silence_fired:
  assumes ok: "timers_ok s"
    and look: "lookup_timer j s = Some (j, due, SilenceExpired)"
    and empty: "trim (finalTranscript s) = []"
    and rec: "recognition s"
  shows "handle (TimerFire j) s =
           s\<lparr>isListening := False,
             timers := without_timer (Some j) (timers s) @ [(nextTimer s, now s + 500, ResumeAfterSilence)],
             nextTimer := Suc (nextTimer s),
             engine := (if engine s = Idle then Idle else Stopping),
             voiceIndicator := False, micLabel := MicSpeaking, micRecording := False,
             console := console s @ [''5 seconds of silence detected'',
                                     ''No message to send, resuming listening'']\<rparr>"
proof -
  have "silenceTimer s = Some j"
    using ok lookup_in_timers [OF look] by (fastforce simp: timers_ok_def)
  then show ?thesis
    using look empty rec
    by (simp add: handle_def deliver_def run_callback_def take_timer_def
          stopListeningAndSend_def and_then_def stopListening_cases clearTimeout_def
          log_def setTimeout_def Let_def)
qed

lemma enabled_stays: "enabled (TimerFire j) s \<Longrightarrow> location s = Stay"
  by (simp add: enabled_def)

lemma resume_after_silence:
  assumes ok: "timers_ok s1"
    and idle: "engine s1 \<noteq> Running" "engine s1 \<noteq> Starting"
    and off: "\<not> isListening s1" and rec: "recognition s1" and stay: "location s1 = Stay"
    and look: "lookup_timer k s1 = Some (k, due, ResumeAfterSilence)" and due: "due \<le> now s1 + 500"
  shows "let resume = recogniser_ends s1 @ [Elapse 500, TimerFire k, RecStart];
             s5 = after resume s1
         in run resume s1 = Some s5 \<and> requests s5 = requests s1 \<and> isListening s5 \<and>
            engine s5 = Running \<and> finalTranscript s5 = [] \<and> interimTranscript s5 = []"
proof -
  define s2 where "s2 = after (recogniser_ends s1) s1"
  define s3 where "s3 = handle (Elapse 500) s2"
  define s4 where "s4 = handle (TimerFire k) s3"
  define s5 where "s5 = handle RecStart s4"
  have s2: "s2 = (if engine s1 = Idle then s1 else log ''Recognition ended'' (s1\<lparr>engine := Idle\<rparr>))"
    using off by (simp add: s2_def recogniser_ends_def handle_def deliver_def
          recognition_onend_def Let_def log_def)
  have r2: "run (recogniser_ends s1) s1 = Some s2"
    using stay by (simp add: s2_def recogniser_ends_def enabled_def)
  have f2: "engine s2 = Idle" "\<not> isListening s2" "recognition s2" "location s2 = Stay"
    "timers s2 = timers s1" "now s2 = now s1" "requests s2 = requests s1"
    using off rec stay by (simp_all add: s2 log_def)
  have s3: "s3 = s2\<lparr>now := now s2 + 500\<rparr>"
    by (simp add: s3_def handle_simps)
  have e3: "enabled (Elapse 500) s2"
    using f2 by (simp add: enabled_def)
  have l3: "lookup_timer k s3 = Some (k, due, ResumeAfterSilence)"
    using look f2 by (simp add: lookup_timer_def s3)
  have e4: "enabled (TimerFire k) s3"
    using l3 f2 due by (simp add: enabled_def s3)
  have s4: "s4 = state_of (startListening (clearTimeout (Some k) s3))"
    by (simp add: s4_def handle_def deliver_def l3 run_callback_def take_timer_def)
  have f4: "engine s4 = Starting" "finalTranscript s4 = []" "interimTranscript s4 = []"
    "location s4 = Stay" "requests s4 = requests s1"
    using f2 by (simp_all add: s4 s3 startListening_cases clearTimeout_def)
  have e5: "enabled RecStart s4"
    using f4 by (simp add: enabled_def)
  have f5: "isListening s5" "engine s5 = Running" "finalTranscript s5 = []"
    "interimTranscript s5 = []" "requests s5 = requests s1"
    using f4 by (simp_all add: s5_def handle_def deliver_def recognition_onstart_def log_def)
  have a: "after (recogniser_ends s1 @ [Elapse 500, TimerFire k, RecStart]) s1 = s5"
    by (simp add: after_append s2_def s3_def s4_def s5_def)
  have "run [Elapse 500, TimerFire k, RecStart] s2 = Some s5"
    using e3 e4 e5 by (simp add: s3_def [symmetric] s4_def [symmetric] s5_def [symmetric])
  then have "run (recogniser_ends s1 @ [Elapse 500, TimerFire k, RecStart]) s1 = Some s5"
    using r2 by (simp add: recogniser_ends_def split: if_splits)
  then show ?thesis
    using a f5 by (simp add: Let_def)
qed

text \<open>
  In a reachable state, let the silence timeout be delivered while \<open>finalTranscript\<close>
  trims to the empty string. Then no request is sent, nothing is added to the chat and no
  utterance is queued, and \<open>startListening\<close> is scheduled 500 ms later. If the recogniser
  reports its end before that timeout, the timeout starts it again.
\<close>

lemma empty_silence_sends_nothing:
  assumes "reachable s"
    and "enabled (TimerFire j) s" and "lookup_timer j s = Some (j, due, SilenceExpired)"
    and "trim (finalTranscript s) = []"
  shows "let s1 = handle (TimerFire j) s;
             resume = recogniser_ends s1 @ [Elapse 500, TimerFire (nextTimer s), RecStart];
             s5 = after resume s1
         in requests s1 = requests s \<and> pending s1 = pending s \<and> chat s1 = chat s \<and>
            queue s1 = queue s \<and> \<not> isListening s1 \<and>
            lookup_timer (nextTimer s) s1 = Some (nextTimer s, now s + 500, ResumeAfterSilence) \<and>
            run resume s1 = Some s5 \<and> requests s5 = requests s \<and> isListening s5 \<and>
            engine s5 = Running \<and> finalTranscript s5 = [] \<and> interimTranscript s5 = []"
proof -
  define s1 where "s1 = handle (TimerFire j) s"
  have ok: "timers_ok s"
    using assms(1) by (rule reachable_timers_ok)
  have ok1: "timers_ok s1"
    unfolding s1_def using ok by (rule timers_ok_handle)
  have "silence_deadlines s \<noteq> []"
    using lookup_in_timers [OF assms(3)]
    by (force simp: silence_deadlines_def filter_empty_conv)
  then have rec: "recognition s"
    using reachable_sound [OF assms(1)] by (simp add: sound_def)
  note s1 = silence_fired [OF ok assms(3) assms(4) rec, folded s1_def]
  have f1: "requests s1 = requests s" "pending s1 = pending s" "chat s1 = chat s"
    "queue s1 = queue s" "\<not> isListening s1" "recognition s1" "location s1 = Stay"
    "engine s1 \<noteq> Running" "engine s1 \<noteq> Starting" "now s1 = now s"
    using rec enabled_stays [OF assms(2)] by (simp_all add: s1)
  have "\<forall>t \<in> set (without_timer (Some j) (timers s)). \<not> fst t = nextTimer s"
    using ok by (auto simp: timers_ok_def without_timer_def)
  then have l1: "lookup_timer (nextTimer s) s1
                   = Some (nextTimer s, now s + 500, ResumeAfterSilence)"
    by (simp add: lookup_timer_def s1 find_append_skip)
  have due: "now s + 500 \<le> now s1 + 500"
    by (simp add: f1)
  note resumed = resume_after_silence [OF ok1 f1(8) f1(9) f1(5) f1(6) f1(7) l1 due]
  show ?thesis
    unfolding s1_def [symmetric] using f1 l1 resumed by (simp add: Let_def)
qed

text \<open>
  C3. From the state \<open>quiet\<close> (listening, nothing final in the buffer, the silence timeout
  due), the silence timeout sends no request and schedules \<open>startListening\<close> 500 ms
  later (line 250, "just resume listening"). When that timeout comes before the
  recogniser has reported the end that \<open>stopListening\<close> asked for,
  \<open>recognition.start()\<close> raises, line 215 swallows the exception, and \<open>onend\<close> finds
  \<open>isListening\<close> false: the page is not listening and no timer but the countdown is
  pending, so nothing will start the recogniser again.
\<close>

theorem empty_silence_can_end_deaf:
  "case run to_deaf_after_silence (initial True []) of
     None \<Rightarrow> False
   | Some s \<Rightarrow> requests s = [StartReq] \<and> pending s = [] \<and> chat s = [(Some ''Hi'', False)] \<and>
       \<not> isListening s \<and> engine s = Idle \<and> queue s = [] \<and> cancelled s = [] \<and>
       timers s = [(1, 1000, Countdown)]"
  by (simp add: model_defs Let_def)

subsection \<open>Speaking\<close>









subsection \<open>Listening while speaking\<close>

text \<open>
  C1. The recogniser can be running, with \<open>isListening\<close> set and the indicator on, while
  an utterance is being spoken: \<open>speak\<close> stops the recogniser, but a \<open>startListening\<close>
  timeout scheduled before the call is still pending and starts it again. Two runs
  reach such a state, one with a typed message and one by voice alone.
\<close>

theorem mic_live_while_speaking:
  "(case run to_overlap (initial True []) of
      None \<Rightarrow> False
    | Some s \<Rightarrow> isListening s \<and> engine s = Running \<and> voiceIndicator s \<and>
        queue s = [\<lparr>utext = ''Sure'', uvoice = None, ondone = None\<rparr>]) \<and>
   (case run to_overlap_by_voice (initial True []) of
      None \<Rightarrow> False
    | Some s \<Rightarrow> isListening s \<and> engine s = Running \<and> voiceIndicator s \<and>
        queue s = [\<lparr>utext = ''Sure'', uvoice = None, ondone = None\<rparr>] \<and>
        requests s = [StartReq, SendReq (Some ''c1'') ''hello'',
                      SendReq (Some ''c1'') ''hello there''])"
  by (simp add: model_defs Let_def)

end
